theory Spec2Isabelle
  imports Main
begin

section \<open>JavaScript values\<close>

text \<open>
  The service \<open>src/server/services/judge0Service.js\<close> handles values that may be a
  string, a number, \<open>null\<close> or missing (\<open>undefined\<close>), and it tests them with
  JavaScript's truthiness (\<open>!x\<close>, \<open>x || d\<close>, \<open>x && y\<close>) and with \<open>typeof x === 'string'\<close>.
  A \<open>jsval\<close> is such a value. \<open>JObject n\<close> is an object or function value, which is
  always truthy; \<open>n\<close> only names it.

  A \<open>string\<close> is a JavaScript string whose code units are all below 256: the character
  with code \<open>n\<close> is the code unit \<open>n\<close>. Numbers are integers.
\<close>

datatype jsval = JUndefined | JNull | JBool bool | JNum int | JStr string | JObject string

fun truthy :: "jsval \<Rightarrow> bool" where
  "truthy JUndefined = False"
| "truthy JNull = False"
| "truthy (JBool b) = b"
| "truthy (JNum n) = (n \<noteq> 0)"
| "truthy (JStr s) = (s \<noteq> [])"
| "truthy (JObject n) = True"

text \<open>\<open>a || d\<close>\<close>

definition or_else :: "jsval \<Rightarrow> jsval \<Rightarrow> jsval" where
  "or_else a d = (if truthy a then a else d)"

text \<open>A thrown \<open>Error\<close> object; the code only ever reads its \<open>message\<close>.\<close>

datatype js_error = Error (message: string)

section \<open>String operations\<close>

text \<open>
  \<open>String.prototype.trim\<close> removes white space and line terminators from both ends.
  Below 256 these are the code units 9 to 13, 32 and 160.
\<close>

definition isWhiteSpace :: "char \<Rightarrow> bool" where
  "isWhiteSpace c = (of_char c \<in> {9, 10, 11, 12, 13, 32, 160 :: nat})"

definition trim :: "string \<Rightarrow> string" where
  "trim s = rev (dropWhile isWhiteSpace (rev (dropWhile isWhiteSpace s)))"

text \<open>\<open>s.replace(/\r\n/g, '\n')\<close>: one pass from the left, matches do not overlap.\<close>

fun replace_crlf :: "string \<Rightarrow> string" where
  "replace_crlf [] = []"
| "replace_crlf [c] = [c]"
| "replace_crlf (c # d # s) =
     (if c = CHR 0x0D \<and> d = CHR 0x0A then CHR 0x0A # replace_crlf s
      else c # replace_crlf (d # s))"

text \<open>
  \<open>String.prototype.toLowerCase\<close> on code units below 256: the letters A to Z and the
  Latin-1 capitals 192 to 222 (without the multiplication sign 215) move up by 32.
\<close>

definition lowerChar :: "char \<Rightarrow> char" where
  "lowerChar c =
     (let n = (of_char c :: nat)
      in if (65 \<le> n \<and> n \<le> 90) \<or> (192 \<le> n \<and> n \<le> 222 \<and> n \<noteq> 215)
         then char_of (n + 32) else c)"

definition toLowerCase :: "string \<Rightarrow> string" where
  "toLowerCase s = map lowerChar s"

section \<open>OutputComparator\<close>

text \<open>
  \<open>compareOutput(actual, expected)\<close>. Calling \<open>.trim()\<close> on a truthy value that is not
  a string throws a \<open>TypeError\<close>; the arguments are evaluated left to right.
\<close>

definition compareOutput :: "jsval \<Rightarrow> jsval \<Rightarrow> js_error + bool" where
  "compareOutput actual expected =
     (if \<not> truthy actual \<or> \<not> truthy expected then Inr False
      else case actual of
        JStr a \<Rightarrow>
          (case expected of
             JStr e \<Rightarrow> Inr (replace_crlf (trim a) = replace_crlf (trim e))
           | _ \<Rightarrow> Inl (Error ''expected.trim is not a function''))
      | _ \<Rightarrow> Inl (Error ''actual.trim is not a function''))"

text \<open>
  The comparison as the specification words it: false when a side is absent or empty;
  otherwise both sides are normalised (outer white space removed, then every carriage
  return followed by a line feed turned into a line feed) and must be equal.
\<close>

definition absent_or_empty :: "jsval \<Rightarrow> bool" where
  "absent_or_empty v = (v = JUndefined \<or> v = JNull \<or> v = JStr [])"

definition normalise :: "string \<Rightarrow> string" where
  "normalise s = replace_crlf (trim s)"

section \<open>Language table\<close>

text \<open>
  \<open>this.languageMap\<close> is an object literal, so \<open>this.languageMap[key]\<close> first looks at
  the five own properties and then follows the prototype chain to \<open>Object.prototype\<close>,
  whose members are functions, or for \<open>__proto__\<close> the prototype object itself.
\<close>

definition languageMap :: "(string \<times> int) list" where
  "languageMap =
     [(''c'', 50), (''cpp'', 54), (''java'', 62), (''python'', 71), (''javascript'', 63)]"

definition objectPrototype :: "string list" where
  "objectPrototype =
     [''constructor'', ''__defineGetter__'', ''__defineSetter__'', ''hasOwnProperty'',
      ''__lookupGetter__'', ''__lookupSetter__'', ''isPrototypeOf'',
      ''propertyIsEnumerable'', ''toString'', ''valueOf'', ''__proto__'',
      ''toLocaleString'']"

definition getProperty :: "(string \<times> int) list \<Rightarrow> string \<Rightarrow> jsval" where
  "getProperty obj key =
     (case map_of obj key of
        Some n \<Rightarrow> JNum n
      | None \<Rightarrow> if key \<in> set objectPrototype then JObject key else JUndefined)"

definition getLanguageId :: "string \<Rightarrow> jsval" where
  "getLanguageId language = getProperty languageMap (toLowerCase language)"

definition getSupportedLanguages :: "string list" where
  "getSupportedLanguages = map fst languageMap"

section \<open>Data model\<close>

text \<open>
  The record the remote engine returns for a status fetch:
  \<open>{status: {id, description}, stdout, stderr, compile_output, time, memory}\<close>.
  \<open>status\<close> may be missing. Any further property of the object lives in the record's
  extension, so that an object spread \<open>{...result, stdout: v}\<close> is a record update.
\<close>

record status_obj =
  sid :: int
  description :: jsval

record result =
  status :: "status_obj option"
  stdout :: jsval
  stderr :: jsval
  compile_output :: jsval
  time :: jsval
  memory :: jsval

record testCase =
  tc_id :: int
  input_data :: string
  expected_output :: string
  is_sample :: bool

datatype verdict = PASSED | FAILED | TLE | CE | ERROR

text \<open>
  The object pushed to \<open>results\<close>. The interpreted variant adds the two properties of
  \<open>llm_fields\<close>, which sit in the extension.
\<close>

record caseResult =
  testCase :: testCase
  cr_status :: verdict
  cr_output :: jsval
  expected :: string
  executionTime :: jsval
  cr_memory :: jsval
  error :: jsval

record interp_rec =
  success :: bool
  formatted_input :: jsval

record llm_fields =
  llmInterpretation :: "interp_rec option"
  usedInput :: jsval

section \<open>ResponseDecoder\<close>

text \<open>
  \<open>decodeBase64Response\<close> with its three \<open>try\<close> blocks. The decoder
  \<open>Buffer.from(s, 'base64').toString('utf-8')\<close> is the parameter \<open>dec\<close>, and \<open>Inl\<close>
  is the case that it throws. A field is decoded when it is a non-empty string; were
  decoding to throw, the \<open>catch\<close> would keep the field.
\<close>

definition decodeField :: "(string \<Rightarrow> js_error + string) \<Rightarrow> jsval \<Rightarrow> jsval" where
  "decodeField dec v =
     (case v of
        JStr s \<Rightarrow> if s \<noteq> [] then (case dec s of Inr t \<Rightarrow> JStr t | Inl e \<Rightarrow> JStr s) else v
      | _ \<Rightarrow> v)"

definition decodeBase64Response ::
  "(string \<Rightarrow> js_error + string) \<Rightarrow> 'a result_scheme \<Rightarrow> 'a result_scheme" where
  "decodeBase64Response dec data =
     (let decoded = data;
          decoded = decoded\<lparr>stdout := decodeField dec (stdout decoded)\<rparr>;
          decoded = decoded\<lparr>stderr := decodeField dec (stderr decoded)\<rparr>;
          decoded = decoded\<lparr>compile_output := decodeField dec (compile_output decoded)\<rparr>
      in decoded)"

subsection \<open>The decoder of the platform\<close>

text \<open>
  \<open>Buffer.from(s, 'base64')\<close> accepts every string: it reads up to the first \<open>=\<close>,
  skips each character that is in neither base64 alphabet (the standard one with
  \<open>+\<close> and \<open>/\<close>, the URL-safe one with \<open>-\<close> and \<open>_\<close>), and packs the six bits of each
  remaining character into bytes; bits that do not fill a last byte are dropped.
\<close>

definition unbase64 :: "char \<Rightarrow> nat option" where
  "unbase64 c =
     (let n = (of_char c :: nat)
      in if 65 \<le> n \<and> n \<le> 90 then Some (n - 65)
         else if 97 \<le> n \<and> n \<le> 122 then Some (n - 71)
         else if 48 \<le> n \<and> n \<le> 57 then Some (n + 4)
         else if n = 43 \<or> n = 45 then Some 62
         else if n = 47 \<or> n = 95 then Some 63
         else None)"

definition sextets :: "string \<Rightarrow> nat list" where
  "sextets s = List.map_filter unbase64 (takeWhile (\<lambda>c. c \<noteq> CHR ''='') s)"

fun bytesOf :: "nat list \<Rightarrow> nat list" where
  "bytesOf (a # b # c # d # r) =
     (a * 4 + b div 16) # ((b mod 16) * 16 + c div 4) # ((c mod 4) * 64 + d) # bytesOf r"
| "bytesOf [a, b, c] = [a * 4 + b div 16, (b mod 16) * 16 + c div 4]"
| "bytesOf [a, b] = [a * 4 + b div 16]"
| "bytesOf r = []"

text \<open>
  \<open>buf.toString('utf-8')\<close> accepts every byte sequence. A byte below 128 is the
  character of that code, and the two-byte sequences that start with 194 or 195 are the
  characters 128 to 255. Any other byte belongs to a decoding with a code unit from 256
  on (a character beyond 255, or the replacement character that stands for an invalid
  sequence), which the strings modelled here do not have; it is written as a question
  mark.
\<close>

fun utf8ToString :: "nat list \<Rightarrow> string" where
  "utf8ToString [] = []"
| "utf8ToString [b] = (if b < 128 then [char_of b] else ''?'')"
| "utf8ToString (b # c # r) =
     (if b < 128 then char_of b # utf8ToString (c # r)
      else if (b = 194 \<or> b = 195) \<and> 128 \<le> c \<and> c < 192
           then char_of ((b - 192) * 64 + (c - 128)) # utf8ToString r
      else CHR ''?'' # utf8ToString (c # r))"

definition base64ToString :: "string \<Rightarrow> string" where
  "base64ToString s = utf8ToString (bytesOf (sextets s))"

text \<open>The decoder as the argument of \<open>decodeBase64Response\<close>: it returns, it never throws.\<close>

definition nodeDecode :: "string \<Rightarrow> js_error + string" where
  "nodeDecode s = Inr (base64ToString s)"

section \<open>The remote engine and the world\<close>

record submission =
  source_code :: string
  language_id :: jsval
  stdin :: jsval
  base64_encoded :: bool

type_synonym headers = "(string \<times> string) list"

datatype request = Post string submission headers | Get string headers

text \<open>
  What \<open>axios\<close> throws: \<open>response_status\<close> is \<open>error.response.status\<close> when the engine
  answered, \<open>None\<close> when there is no \<open>error.response\<close>.
\<close>

record axios_error =
  response_status :: "int option"
  axios_message :: string

text \<open>
  The environment answers every request from the requests made so far and the request
  itself, after a latency in milliseconds. \<open>post_reply\<close> gives \<open>response.data.token\<close>,
  \<open>get_reply\<close> gives \<open>response.data\<close>. \<open>interpretTestCases\<close> is the function of that
  name of \<open>llmService\<close>.
\<close>

record env =
  decode :: "string \<Rightarrow> js_error + string"
  post_reply :: "request list \<Rightarrow> request \<Rightarrow> nat \<times> (axios_error + string)"
  get_reply :: "request list \<Rightarrow> request \<Rightarrow> nat \<times> (axios_error + result)"
  interpretTestCases ::
    "testCase list \<Rightarrow> string \<Rightarrow> string \<Rightarrow> js_error + interp_rec list"

record config =
  apiKey :: "string option"
  baseURL :: string
  useRapidAPI :: bool

text \<open>
  The constructor, from the environment variables \<open>JUDGE0_API_KEY\<close> and
  \<open>JUDGE0_API_URL\<close>; \<open>str_includes\<close> is \<open>String.prototype.includes\<close>.
\<close>

definition str_includes :: "string \<Rightarrow> string \<Rightarrow> bool" where
  "str_includes s t = (\<exists>i\<in>{0..length s}. take (length t) (drop i s) = t)"

definition newJudge0Service :: "string option \<Rightarrow> string option \<Rightarrow> config" where
  "newJudge0Service key url =
     (let base = (case url of
                    Some u \<Rightarrow> if u \<noteq> [] then u else ''https://judge0-ce.p.rapidapi.com''
                  | None \<Rightarrow> ''https://judge0-ce.p.rapidapi.com'')
      in \<lparr>apiKey = key, baseURL = base, useRapidAPI = str_includes base ''rapidapi.com''\<rparr>)"

text \<open>The world: the network requests made so far, and \<open>Date.now()\<close>.\<close>

record world =
  requests :: "request list"
  clock :: int

text \<open>
  Sending a request appends it to the requests made and moves the clock by the latency
  of the answer. \<open>axios_post\<close> and \<open>axios_get\<close> return the answer, or what \<open>axios\<close>
  throws, with the new world; \<open>setTimeout\<close> is the awaited sleep.
\<close>

definition send :: "env \<Rightarrow> request \<Rightarrow> world \<Rightarrow> nat \<times> world" where
  "send e rq w =
     (let lat = (case rq of Post u b h \<Rightarrow> fst (post_reply e (requests w) rq)
                          | Get u h \<Rightarrow> fst (get_reply e (requests w) rq))
      in (lat, \<lparr>requests = requests w @ [rq], clock = clock w + int lat\<rparr>))"

definition axios_post ::
  "env \<Rightarrow> string \<Rightarrow> submission \<Rightarrow> headers \<Rightarrow> world \<Rightarrow> (axios_error + string) \<times> world" where
  "axios_post e url body hs w =
     (snd (post_reply e (requests w) (Post url body hs)), snd (send e (Post url body hs) w))"

definition axios_get ::
  "env \<Rightarrow> string \<Rightarrow> headers \<Rightarrow> world \<Rightarrow> (axios_error + result) \<times> world" where
  "axios_get e url hs w =
     (snd (get_reply e (requests w) (Get url hs)), snd (send e (Get url hs) w))"

definition setTimeout :: "int \<Rightarrow> world \<Rightarrow> world" where
  "setTimeout ms w = w\<lparr>clock := clock w + ms\<rparr>"

definition rapidHeaders :: "config \<Rightarrow> headers" where
  "rapidHeaders cfg =
     (case apiKey cfg of
        Some k \<Rightarrow>
          if useRapidAPI cfg \<and> k \<noteq> []
          then [(''X-RapidAPI-Key'', k), (''X-RapidAPI-Host'', ''judge0-ce.p.rapidapi.com'')]
          else []
      | None \<Rightarrow> [])"

section \<open>SubmissionClient\<close>

text \<open>The \<open>catch\<close> block of \<open>submitCode\<close>, applied to whatever the \<open>try\<close> block threw.\<close>

definition submitCatch :: "axios_error \<Rightarrow> js_error" where
  "submitCatch err =
     (if response_status err = Some 401 then
        Error ''Judge0 API key is invalid or missing. Please check your JUDGE0_API_KEY environment variable.''
      else if response_status err = Some 429 then
        Error ''Judge0 API rate limit exceeded. Please try again later.''
      else if response_status err = Some 500 then
        Error ''Judge0 service is temporarily unavailable. Please try again later.''
      else Error (''Failed to submit code: '' @ axios_message err))"

text \<open>\<open>input = ''\<close>: the default applies when the argument is \<open>undefined\<close>.\<close>

definition submitCode ::
  "env \<Rightarrow> config \<Rightarrow> string \<Rightarrow> string \<Rightarrow> jsval \<Rightarrow> world \<Rightarrow> (js_error + string) \<times> world" where
  "submitCode e cfg code language input0 w =
     (let input = (if input0 = JUndefined then JStr [] else input0);
          languageId = getProperty languageMap (toLowerCase language)
      in if \<not> truthy languageId then
           (Inl (submitCatch \<lparr>response_status = None,
                               axios_message = ''Unsupported language: '' @ language\<rparr>), w)
         else
           let submission = \<lparr>source_code = code, language_id = languageId,
                              stdin = input, base64_encoded = True\<rparr>;
               headers = [(''Content-Type'', ''application/json'')] @ rapidHeaders cfg
           in case axios_post e (baseURL cfg @ ''/submissions'') submission headers w of
                (Inr token, w') \<Rightarrow> (Inr token, w')
              | (Inl err, w') \<Rightarrow> (Inl (submitCatch err), w'))"

section \<open>ResultPoller\<close>

definition getSubmissionResult ::
  "env \<Rightarrow> config \<Rightarrow> string \<Rightarrow> world \<Rightarrow> (js_error + result) \<times> world" where
  "getSubmissionResult e cfg token w =
     (let headers = rapidHeaders cfg
      in case axios_get e (baseURL cfg @ ''/submissions/'' @ token @ ''?base64_encoded=true'')
                headers w of
           (Inr data, w') \<Rightarrow> (Inr (decodeBase64Response (decode e) data), w')
         | (Inl err, w') \<Rightarrow>
             (Inl (Error (''Failed to get submission result: '' @ axios_message err)), w'))"

text \<open>\<open>result.status && result.status.id > 2\<close>\<close>

definition completed :: "'a result_scheme \<Rightarrow> bool" where
  "completed r = (case status r of Some st \<Rightarrow> sid st > 2 | None \<Rightarrow> False)"

text \<open>
  The loop of \<open>waitForSubmission\<close>. Each round reads the clock, fetches, and either
  returns, rethrows the error of the fetch, or sleeps for 1000 ms. It terminates because
  every round moves the clock forward by at least the sleep.
\<close>

function waitLoop ::
  "env \<Rightarrow> config \<Rightarrow> string \<Rightarrow> int \<Rightarrow> int \<Rightarrow> world \<Rightarrow> (js_error + result) \<times> world" where
  "waitLoop e cfg token maxWaitTime startTime w =
     (if clock w - startTime < maxWaitTime then
        (case getSubmissionResult e cfg token w of
           (Inl err, w') \<Rightarrow> (Inl err, w')
         | (Inr r, w') \<Rightarrow>
             if completed r then (Inr r, w')
             else waitLoop e cfg token maxWaitTime startTime (setTimeout 1000 w'))
      else (Inl (Error ''Submission timeout''), w))"
  by pat_completeness auto
termination
  apply (relation "measure (\<lambda>(e, cfg, token, maxWaitTime, startTime, w).
                      nat (maxWaitTime - (clock w - startTime)))")
   apply simp
  apply (auto simp: setTimeout_def getSubmissionResult_def axios_get_def send_def Let_def
              split: sum.splits)
  done

declare waitLoop.simps [simp del]

definition waitForSubmission ::
  "env \<Rightarrow> config \<Rightarrow> string \<Rightarrow> int \<Rightarrow> world \<Rightarrow> (js_error + result) \<times> world" where
  "waitForSubmission e cfg token maxWaitTime w =
     (let startTime = clock w in waitLoop e cfg token maxWaitTime startTime w)"

section \<open>Single execution\<close>

text \<open>\<open>result.status?.id\<close>\<close>

definition status_id :: "'a result_scheme \<Rightarrow> int option" where
  "status_id r = map_option sid (status r)"

text \<open>The chain under \<open>// Handle different output scenarios\<close> in \<open>executeCode\<close>.\<close>

definition handleOutputScenarios :: "'a result_scheme \<Rightarrow> 'a result_scheme" where
  "handleOutputScenarios r =
     (if status_id r = Some 3 then
        r\<lparr>stdout := or_else (stdout r) (JStr ''No output''),
          stderr := or_else (stderr r) (JStr []),
          compile_output := or_else (compile_output r) (JStr [])\<rparr>
      else if status_id r = Some 6 then
        r\<lparr>stdout := JStr [],
          stderr := JStr [],
          compile_output := or_else (compile_output r) (JStr ''Compilation Error'')\<rparr>
      else if status_id r = Some 5 then
        r\<lparr>stdout := JStr [],
          stderr := JStr ''Time Limit Exceeded'',
          compile_output := JStr []\<rparr>
      else
        r\<lparr>stdout := or_else (stdout r) (JStr []),
          stderr := or_else (stderr r) (JStr ''Runtime Error''),
          compile_output := or_else (compile_output r) (JStr [])\<rparr>)"

definition executeCode ::
  "env \<Rightarrow> config \<Rightarrow> string \<Rightarrow> string \<Rightarrow> jsval \<Rightarrow> world \<Rightarrow> (js_error + result) \<times> world" where
  "executeCode e cfg code language input w =
     (case submitCode e cfg code language input w of
        (Inl err, w1) \<Rightarrow> (Inl err, w1)
      | (Inr token, w1) \<Rightarrow>
          (case waitForSubmission e cfg token 15000 w1 of
             (Inl err, w2) \<Rightarrow> (Inl err, w2)
           | (Inr r, w2) \<Rightarrow> (Inr (handleOutputScenarios r), w2)))"

section \<open>TestCaseOrchestrator\<close>

text \<open>
  The classification after \<open>// Check if execution was successful\<close>, the same text in
  both batch functions; \<open>ext\<close> holds the properties the interpreted variant adds.
  \<open>compareOutput\<close> may throw, which leaves the \<open>try\<close> block.
\<close>

definition classifyCase ::
  "testCase \<Rightarrow> result \<Rightarrow> 'a \<Rightarrow> js_error + 'a caseResult_scheme" where
  "classifyCase tc r ext =
     (if status_id r = Some 3 then
        (case compareOutput (stdout r) (JStr (expected_output tc)) of
           Inl err \<Rightarrow> Inl err
         | Inr isCorrect \<Rightarrow>
             Inr \<lparr>testCase = tc, cr_status = (if isCorrect then PASSED else FAILED),
                  cr_output = stdout r, expected = expected_output tc,
                  executionTime = time r, cr_memory = memory r, error = JNull, \<dots> = ext\<rparr>)
      else if status_id r = Some 4 then
        Inr \<lparr>testCase = tc, cr_status = FAILED,
             cr_output = stdout r, expected = expected_output tc,
             executionTime = time r, cr_memory = memory r, error = JNull, \<dots> = ext\<rparr>
      else if status_id r = Some 5 then
        Inr \<lparr>testCase = tc, cr_status = TLE,
             cr_output = JNull, expected = expected_output tc,
             executionTime = JNull, cr_memory = JNull,
             error = JStr ''Time Limit Exceeded'', \<dots> = ext\<rparr>
      else if status_id r = Some 6 then
        Inr \<lparr>testCase = tc, cr_status = CE,
             cr_output = JNull, expected = expected_output tc,
             executionTime = JNull, cr_memory = JNull,
             error = or_else (compile_output r) (JStr ''Compilation Error''), \<dots> = ext\<rparr>
      else
        Inr \<lparr>testCase = tc, cr_status = ERROR,
             cr_output = JNull, expected = expected_output tc,
             executionTime = JNull, cr_memory = JNull,
             error = or_else (case status r of Some st \<Rightarrow> description st | None \<Rightarrow> JUndefined)
                             (JStr ''Unknown Error''), \<dots> = ext\<rparr>)"

text \<open>The object the per-case \<open>catch\<close> pushes.\<close>

definition caughtResult :: "testCase \<Rightarrow> js_error \<Rightarrow> 'a \<Rightarrow> 'a caseResult_scheme" where
  "caughtResult tc err ext =
     \<lparr>testCase = tc, cr_status = ERROR, cr_output = JNull, expected = expected_output tc,
      executionTime = JNull, cr_memory = JNull, error = JStr (message err), \<dots> = ext\<rparr>"

subsection \<open>\<open>executeTestCases\<close>\<close>

text \<open>The \<open>try\<close> block of one round of the loop.\<close>

definition tryCase ::
  "env \<Rightarrow> config \<Rightarrow> string \<Rightarrow> string \<Rightarrow> testCase \<Rightarrow> world \<Rightarrow>
   (js_error + caseResult) \<times> world" where
  "tryCase e cfg code language tc w =
     (case submitCode e cfg code language (JStr (input_data tc)) w of
        (Inl err, w1) \<Rightarrow> (Inl err, w1)
      | (Inr token, w1) \<Rightarrow>
          (case waitForSubmission e cfg token 30000 w1 of
             (Inl err, w2) \<Rightarrow> (Inl err, w2)
           | (Inr r, w2) \<Rightarrow> (classifyCase tc r (), w2)))"

text \<open>One round: the \<open>try\<close> block and its \<open>catch\<close>; the value is what is pushed.\<close>

definition processCase ::
  "env \<Rightarrow> config \<Rightarrow> string \<Rightarrow> string \<Rightarrow> testCase \<Rightarrow> world \<Rightarrow> caseResult \<times> world" where
  "processCase e cfg code language tc w =
     (case tryCase e cfg code language tc w of
        (Inl err, w') \<Rightarrow> (caughtResult tc err (), w')
      | (Inr cr, w') \<Rightarrow> (cr, w'))"

fun caseLoop ::
  "env \<Rightarrow> config \<Rightarrow> string \<Rightarrow> string \<Rightarrow> testCase list \<Rightarrow> caseResult list \<Rightarrow> world \<Rightarrow>
   caseResult list \<times> world" where
  "caseLoop e cfg code language [] results w = (results, w)"
| "caseLoop e cfg code language (tc # tcs) results w =
     (case processCase e cfg code language tc w of
        (cr, w') \<Rightarrow> caseLoop e cfg code language tcs (results @ [cr]) w')"

definition executeTestCases ::
  "env \<Rightarrow> config \<Rightarrow> string \<Rightarrow> string \<Rightarrow> testCase list \<Rightarrow> world \<Rightarrow>
   (js_error + caseResult list) \<times> world" where
  "executeTestCases e cfg code language testCases w =
     (case caseLoop e cfg code language testCases [] w of
        (results, w') \<Rightarrow> (Inr results, w'))"

subsection \<open>\<open>executeTestCasesWithLLM\<close>\<close>

type_synonym llmCaseResult = "llm_fields caseResult_scheme"

text \<open>
  \<open>interpretedTestCases[i]\<close> is \<open>undefined\<close> past the end of the array, and the first
  statement of the \<open>try\<close> block reads \<open>interpretation.formatted_input\<close>, which then
  throws a \<open>TypeError\<close>.
\<close>

definition nth_opt :: "'a list \<Rightarrow> nat \<Rightarrow> 'a option" where
  "nth_opt xs i = (if i < length xs then Some (xs ! i) else None)"

definition undefinedRead :: js_error where
  "undefinedRead =
     Error (''Cannot read properties of undefined (reading '' @ [CHR 0x27] @
            ''formatted_input'' @ [CHR 0x27] @ '')'')"

definition inputToUse :: "testCase \<Rightarrow> interp_rec \<Rightarrow> jsval" where
  "inputToUse tc i =
     (if success i \<and> truthy (formatted_input i) then formatted_input i
      else JStr (input_data tc))"

definition tryCaseLLM ::
  "env \<Rightarrow> config \<Rightarrow> string \<Rightarrow> string \<Rightarrow> testCase \<Rightarrow> interp_rec option \<Rightarrow> world \<Rightarrow>
   (js_error + llmCaseResult) \<times> world" where
  "tryCaseLLM e cfg code language tc interpretation w =
     (case interpretation of
        None \<Rightarrow> (Inl undefinedRead, w)
      | Some i \<Rightarrow>
          (case submitCode e cfg code language (inputToUse tc i) w of
             (Inl err, w1) \<Rightarrow> (Inl err, w1)
           | (Inr token, w1) \<Rightarrow>
               (case waitForSubmission e cfg token 30000 w1 of
                  (Inl err, w2) \<Rightarrow> (Inl err, w2)
                | (Inr r, w2) \<Rightarrow>
                    (classifyCase tc r
                       \<lparr>llmInterpretation = interpretation,
                        usedInput = inputToUse tc i\<rparr>, w2))))"

definition processCaseLLM ::
  "env \<Rightarrow> config \<Rightarrow> string \<Rightarrow> string \<Rightarrow> testCase \<Rightarrow> interp_rec option \<Rightarrow> world \<Rightarrow>
   llmCaseResult \<times> world" where
  "processCaseLLM e cfg code language tc interpretation w =
     (case tryCaseLLM e cfg code language tc interpretation w of
        (Inl err, w') \<Rightarrow>
          (caughtResult tc err
             \<lparr>llmInterpretation = interpretation, usedInput = JStr (input_data tc)\<rparr>, w')
      | (Inr cr, w') \<Rightarrow> (cr, w'))"

function llmLoop ::
  "env \<Rightarrow> config \<Rightarrow> string \<Rightarrow> string \<Rightarrow> testCase list \<Rightarrow> interp_rec list \<Rightarrow> nat \<Rightarrow>
   llmCaseResult list \<Rightarrow> world \<Rightarrow> llmCaseResult list \<times> world" where
  "llmLoop e cfg code language testCases interpreted i results w =
     (if i < length testCases then
        (case processCaseLLM e cfg code language (testCases ! i) (nth_opt interpreted i) w of
           (cr, w') \<Rightarrow>
             llmLoop e cfg code language testCases interpreted (Suc i) (results @ [cr]) w')
      else (results, w))"
  by pat_completeness auto
termination
  by (relation "measure (\<lambda>(e, cfg, code, language, testCases, interpreted, i, results, w).
                   length testCases - i)") auto

declare llmLoop.simps [simp del]

definition executeTestCasesWithLLM ::
  "env \<Rightarrow> config \<Rightarrow> string \<Rightarrow> string \<Rightarrow> testCase list \<Rightarrow> string \<Rightarrow> world \<Rightarrow>
   (js_error + llmCaseResult list) \<times> world" where
  "executeTestCasesWithLLM e cfg code language testCases problemContext w =
     (case interpretTestCases e testCases language problemContext of
        Inl err \<Rightarrow> (Inl err, w)
      | Inr interpreted \<Rightarrow>
          (case llmLoop e cfg code language testCases interpreted 0 [] w of
             (results, w') \<Rightarrow> (Inr results, w')))"

section \<open>Notions the statements below use\<close>

text \<open>A field is populated when it is neither absent nor the empty string.\<close>

definition populated :: "jsval \<Rightarrow> bool" where
  "populated v = (\<not> absent_or_empty v)"

text \<open>
  The polls of \<open>waitForSubmission\<close> as a sequence: \<open>pollWorld \<dots> k\<close> is the world in
  which poll number \<open>k\<close> starts when every earlier poll was followed by the 1000 ms
  sleep, \<open>fetched \<dots> k\<close> is what that poll returns or throws, and \<open>elapsed_at \<dots> k\<close> is
  the time since the call when it starts. A poll is within the budget when it starts
  before the budget is used up.
\<close>

primrec pollWorld :: "env \<Rightarrow> config \<Rightarrow> string \<Rightarrow> world \<Rightarrow> nat \<Rightarrow> world" where
  "pollWorld e cfg token w 0 = w"
| "pollWorld e cfg token w (Suc k) =
     setTimeout 1000 (snd (getSubmissionResult e cfg token (pollWorld e cfg token w k)))"

definition fetched :: "env \<Rightarrow> config \<Rightarrow> string \<Rightarrow> world \<Rightarrow> nat \<Rightarrow> js_error + result" where
  "fetched e cfg token w k = fst (getSubmissionResult e cfg token (pollWorld e cfg token w k))"

definition elapsed_at :: "env \<Rightarrow> config \<Rightarrow> string \<Rightarrow> world \<Rightarrow> nat \<Rightarrow> int" where
  "elapsed_at e cfg token w k = clock (pollWorld e cfg token w k) - clock w"

text \<open>A poll is pending when it returned a result whose status is not terminal.\<close>

definition pending :: "js_error + result \<Rightarrow> bool" where
  "pending out = (case out of Inr r \<Rightarrow> \<not> completed r | Inl err \<Rightarrow> False)"

text \<open>Every status fetch returns a result record: the engine never fails a \<open>GET\<close>.\<close>

definition fetches_succeed :: "env \<Rightarrow> bool" where
  "fetches_succeed e = (\<forall>h rq. \<exists>d. snd (get_reply e h rq) = Inr d)"

text \<open>The world in which round \<open>i\<close> of the loop of \<open>executeTestCasesWithLLM\<close> starts.\<close>

primrec llmWorld ::
  "env \<Rightarrow> config \<Rightarrow> string \<Rightarrow> string \<Rightarrow> testCase list \<Rightarrow> interp_rec list \<Rightarrow> world \<Rightarrow> nat \<Rightarrow>
   world" where
  "llmWorld e cfg code language tcs ip w 0 = w"
| "llmWorld e cfg code language tcs ip w (Suc i) =
     snd (processCaseLLM e cfg code language (tcs ! i) (nth_opt ip i)
            (llmWorld e cfg code language tcs ip w i))"

text \<open>The \<open>stdin\<close> of every submission posted so far, oldest first.\<close>

fun stdinsOf :: "request list \<Rightarrow> jsval list" where
  "stdinsOf [] = []"
| "stdinsOf (Post url body hs # rqs) = stdin body # stdinsOf rqs"
| "stdinsOf (Get url hs # rqs) = stdinsOf rqs"

section \<open>Sample environments\<close>

text \<open>
  A configuration, an initial world, and engines that answer every status fetch with a
  given record; all of them decode with the decoder of the platform.
  \<open>replyEnv\<close> refuses a submission whose \<open>stdin\<close> is \<open>boom\<close> with status 500, and its
  interpreter succeeds on the sample test cases only, where it reverses the input.
\<close>

definition cfg0 :: config where
  "cfg0 = newJudge0Service (Some ''key'') None"

definition w0 :: world where
  "w0 = \<lparr>requests = [], clock = 0\<rparr>"

definition rawResult :: "int \<Rightarrow> string \<Rightarrow> jsval \<Rightarrow> jsval \<Rightarrow> jsval \<Rightarrow> result" where
  "rawResult n d out err co =
     \<lparr>status = Some \<lparr>sid = n, description = JStr d\<rparr>, stdout = out, stderr = err,
      compile_output = co, time = JStr ''0.01'', memory = JNum 2048\<rparr>"

definition samplePost :: "request list \<Rightarrow> request \<Rightarrow> nat \<times> (axios_error + string)" where
  "samplePost h rq =
     (120, case rq of
             Post url body hs \<Rightarrow>
               if stdin body = JStr ''boom''
               then Inl \<lparr>response_status = Some 500,
                         axios_message = ''Request failed with status code 500''\<rparr>
               else Inr ''tok''
           | Get url hs \<Rightarrow> Inr ''tok'')"

definition sampleInterpret ::
  "testCase list \<Rightarrow> string \<Rightarrow> string \<Rightarrow> js_error + interp_rec list" where
  "sampleInterpret tcs language ctx =
     Inr (map (\<lambda>tc. \<lparr>success = is_sample tc,
                      formatted_input = JStr (rev (input_data tc))\<rparr>) tcs)"

definition replyEnv :: "result \<Rightarrow> env" where
  "replyEnv r =
     \<lparr>decode = nodeDecode, post_reply = samplePost,
      get_reply = (\<lambda>h rq. (80, Inr r)),
      interpretTestCases = sampleInterpret\<rparr>"

text \<open>An engine that reports ``Processing'' for the first two fetches and then ``Accepted''.\<close>

definition pollEnv :: env where
  "pollEnv =
     \<lparr>decode = nodeDecode, post_reply = samplePost,
      get_reply = (\<lambda>h rq. (200, Inr (if length h < 2
                                       then rawResult 2 ''Processing'' JNull JNull JNull
                                       else rawResult 3 ''Accepted'' (JStr ''NDI='') JNull JNull))),
      interpretTestCases = sampleInterpret\<rparr>"

text \<open>An environment whose interpreter throws.\<close>

definition brokenLLMEnv :: env where
  "brokenLLMEnv =
     \<lparr>decode = nodeDecode, post_reply = samplePost,
      get_reply = (\<lambda>h rq. (80, Inr (rawResult 3 ''Accepted'' (JStr ''NDI='') JNull JNull))),
      interpretTestCases = (\<lambda>tcs language ctx. Inl (Error ''LLM service unavailable''))\<rparr>"

definition mkCase :: "int \<Rightarrow> string \<Rightarrow> string \<Rightarrow> bool \<Rightarrow> testCase" where
  "mkCase n inp ex smp = \<lparr>tc_id = n, input_data = inp, expected_output = ex, is_sample = smp\<rparr>"

definition fiveCases :: "testCase list" where
  "fiveCases =
     [mkCase 1 ''1'' ''42'' True, mkCase 2 ''2'' ''41'' False, mkCase 3 ''boom'' ''42'' False,
      mkCase 4 ''4'' ''42'' False, mkCase 5 ''moob'' ''42'' True]"

text \<open>
  Three test cases for the interpreted batch. The sample interpreter succeeds on the
  first and the third and reverses every input, so the third is submitted as \<open>boom\<close>.
\<close>

definition llmCases :: "testCase list" where
  "llmCases =
     [mkCase 1 ''ab'' ''42'' True, mkCase 2 ''cd'' ''42'' False, mkCase 3 ''moob'' ''42'' True]"

section \<open>Strings\<close>

lemma lowerChar_idem: "lowerChar (lowerChar c) = lowerChar c"
  by (auto simp: lowerChar_def Let_def)

lemma toLowerCase_idem: "toLowerCase (toLowerCase s) = toLowerCase s"
  by (simp add: toLowerCase_def lowerChar_idem)

text \<open>
  \<open>trim\<close> takes a run of white space off each end and nothing else, and what is left
  neither starts nor ends with white space.
\<close>

lemma trim_sandwich:
  "\<exists>l r. s = l @ trim s @ r \<and> (\<forall>c\<in>set l. isWhiteSpace c) \<and> (\<forall>c\<in>set r. isWhiteSpace c)"
proof -
  let ?l = "takeWhile isWhiteSpace s"
  let ?m = "dropWhile isWhiteSpace s"
  let ?r = "rev (takeWhile isWhiteSpace (rev ?m))"
  have "?m = trim s @ ?r"
    unfolding trim_def
    by (metis rev_append rev_rev_ident takeWhile_dropWhile_id)
  then have "s = ?l @ trim s @ ?r"
    by (metis takeWhile_dropWhile_id)
  moreover have "\<forall>c\<in>set ?l. isWhiteSpace c"
    by (meson set_takeWhileD)
  moreover have "\<forall>c\<in>set ?r. isWhiteSpace c"
    by (metis set_rev set_takeWhileD)
  ultimately show ?thesis by blast
qed

lemma trim_ends:
  assumes "trim s \<noteq> []"
  shows "\<not> isWhiteSpace (hd (trim s)) \<and> \<not> isWhiteSpace (last (trim s))"
proof -
  let ?m = "dropWhile isWhiteSpace s"
  let ?d = "dropWhile isWhiteSpace (rev ?m)"
  from assms have d: "?d \<noteq> []" by (simp add: trim_def)
  then have "\<not> isWhiteSpace (hd ?d)" by (rule hd_dropWhile)
  then have l: "\<not> isWhiteSpace (last (trim s))"
    using d by (simp add: trim_def last_rev)
  from d have m: "?m \<noteq> []" by (auto dest: set_dropWhileD)
  then have hm: "\<not> isWhiteSpace (hd ?m)" by (rule hd_dropWhile)
  have "\<exists>r. ?m = trim s @ r"
    unfolding trim_def by (metis rev_append rev_rev_ident takeWhile_dropWhile_id)
  then obtain r where "?m = trim s @ r" ..
  with assms have "hd ?m = hd (trim s)" by (metis hd_append2)
  with hm l show ?thesis by simp
qed

section \<open>OutputComparator: the comparison\<close>

text \<open>
  C6. \<open>compareOutput\<close> returns false when either side is absent (\<open>undefined\<close>, \<open>null\<close>) or
  the empty string. For two non-empty strings it returns true exactly when they are equal
  after both have been trimmed of outer white space and had every carriage return plus
  line feed replaced by a line feed.
\<close>

theorem compareOutput_strings:
  "(absent_or_empty x \<or> absent_or_empty y \<longrightarrow> compareOutput x y = Inr False) \<and>
   (a \<noteq> [] \<and> b \<noteq> [] \<longrightarrow>
      compareOutput (JStr a) (JStr b) = Inr (normalise a = normalise b))"
  by (auto simp: compareOutput_def absent_or_empty_def normalise_def)

text \<open>
  The three examples of the specification: \<open>compare("", "anything")\<close> is false,
  \<open>compare("Hello\r\nWorld", "Hello\nWorld")\<close> and \<open>compare(" x \n", "x")\<close> are true.
\<close>

theorem compareOutput_strings_witness:
  "compareOutput (JStr []) (JStr ''anything'') = Inr False \<and>
   compareOutput (JStr (''Hello'' @ [CHR 0x0D, CHR 0x0A] @ ''World''))
                 (JStr (''Hello'' @ [CHR 0x0A] @ ''World'')) = Inr True \<and>
   compareOutput (JStr ('' x '' @ [CHR 0x0A])) (JStr ''x'') = Inr True"
proof -
  have n1: "normalise (''Hello'' @ [CHR 0x0D, CHR 0x0A] @ ''World'') =
            normalise (''Hello'' @ [CHR 0x0A] @ ''World'')"
    by (simp add: normalise_def trim_def isWhiteSpace_def)
  have n2: "normalise ('' x '' @ [CHR 0x0A]) = normalise ''x''"
    by (simp add: normalise_def trim_def isWhiteSpace_def)
  show ?thesis
    using compareOutput_strings [of "JStr []" "JStr ''anything''"
            "''Hello'' @ [CHR 0x0D, CHR 0x0A] @ ''World''" "''Hello'' @ [CHR 0x0A] @ ''World''"]
          compareOutput_strings [of "JStr []" "JStr ''anything''" "'' x '' @ [CHR 0x0A]" "''x''"]
          n1 n2
    by (simp add: absent_or_empty_def)
qed

section \<open>Language lookup\<close>

text \<open>
  C10. The lookup is case-insensitive: \<open>getLanguageId\<close> gives the same answer for a
  language string and for its lower-case form, \<open>submitCode\<close> makes the same network
  requests for both, and where the language resolves it returns the same value for both.
\<close>

theorem language_lookup_lowercase:
  "getLanguageId l = getLanguageId (toLowerCase l) \<and>
   snd (submitCode e cfg code l input w) = snd (submitCode e cfg code (toLowerCase l) input w) \<and>
   (truthy (getLanguageId l) \<longrightarrow>
      submitCode e cfg code l input w = submitCode e cfg code (toLowerCase l) input w)"
  by (simp add: getLanguageId_def submitCode_def toLowerCase_idem Let_def
           split: prod.splits sum.splits)

text \<open>\<open>Python\<close> resolves to the engine id of \<open>python\<close>, which is 71.\<close>

theorem language_lookup_lowercase_witness:
  "getLanguageId ''Python'' = getLanguageId ''python'' \<and> getLanguageId ''python'' = JNum 71 \<and>
   truthy (getLanguageId ''Python'') \<and>
   submitCode pollEnv cfg0 ''print(42)'' ''Python'' (JStr ''1'') w0 =
     submitCode pollEnv cfg0 ''print(42)'' ''python'' (JStr ''1'') w0"
proof -
  have l: "toLowerCase ''Python'' = ''python''" by code_simp
  have p: "getLanguageId ''python'' = JNum 71" by code_simp
  show ?thesis
    using language_lookup_lowercase [of "''Python''" pollEnv cfg0 "''print(42)''" "JStr ''1''" w0]
          l p
    by simp
qed

text \<open>What \<open>submitCode\<close> does with a language that resolves to nothing, and with one of the table.\<close>

lemma submitCode_unsupported:
  "getLanguageId l = JUndefined \<Longrightarrow>
   submitCode e cfg code l input w =
     (Inl (Error (''Failed to submit code: Unsupported language: '' @ l)), w)"
  by (simp add: submitCode_def getLanguageId_def submitCatch_def Let_def)

lemma submitCode_supported:
  "map_of languageMap (toLowerCase l) = Some n \<Longrightarrow> n \<noteq> 0 \<Longrightarrow>
   requests (snd (submitCode e cfg code l input w)) =
     requests w @
       [Post (baseURL cfg @ ''/submissions'')
          \<lparr>source_code = code, language_id = JNum n,
           stdin = (if input = JUndefined then JStr [] else input), base64_encoded = True\<rparr>
          ([(''Content-Type'', ''application/json'')] @ rapidHeaders cfg)]"
  by (simp add: submitCode_def getProperty_def axios_post_def send_def Let_def split: sum.splits)

lemma languageMap_ids_nonzero: "map_of languageMap k = Some n \<Longrightarrow> n \<noteq> 0"
  by (auto simp: languageMap_def split: if_splits)

lemma getLanguageId_table:
  "getLanguageId ''c'' = JNum 50 \<and> getLanguageId ''cpp'' = JNum 54 \<and>
   getLanguageId ''java'' = JNum 62 \<and> getLanguageId ''python'' = JNum 71 \<and>
   getLanguageId ''javascript'' = JNum 63"
  by code_simp

text \<open>
  A lower-case form contains no capital letter, so of the inherited members only
  \<open>constructor\<close> and \<open>__proto__\<close> can be hit: every other language outside the table is
  rejected, before any request.
\<close>

lemma lowerChar_not_capital:
  "\<not> (65 \<le> (of_char (lowerChar c) :: nat) \<and> (of_char (lowerChar c) :: nat) \<le> 90)"
  by (auto simp: lowerChar_def Let_def)

lemma toLowerCase_no_capital:
  "c \<in> set (toLowerCase l) \<Longrightarrow> \<not> (65 \<le> (of_char c :: nat) \<and> (of_char c :: nat) \<le> 90)"
  using lowerChar_not_capital by (auto simp: toLowerCase_def)

lemma inherited_lowercase:
  assumes "toLowerCase l \<in> set objectPrototype"
  shows "toLowerCase l = ''constructor'' \<or> toLowerCase l = ''__proto__''"
proof (rule ccontr)
  assume n: "\<not> (toLowerCase l = ''constructor'' \<or> toLowerCase l = ''__proto__'')"
  have nc: "c \<notin> set (toLowerCase l)"
    if "c \<in> {CHR ''G'', CHR ''S'', CHR ''O'', CHR ''P'', CHR ''E'', CHR ''L''}" for c
    using toLowerCase_no_capital [of c l] that by auto
  from assms n consider
      "toLowerCase l = ''__defineGetter__''" | "toLowerCase l = ''__defineSetter__''"
    | "toLowerCase l = ''hasOwnProperty''" | "toLowerCase l = ''__lookupGetter__''"
    | "toLowerCase l = ''__lookupSetter__''" | "toLowerCase l = ''isPrototypeOf''"
    | "toLowerCase l = ''propertyIsEnumerable''" | "toLowerCase l = ''toString''"
    | "toLowerCase l = ''valueOf''" | "toLowerCase l = ''toLocaleString''"
    by (auto simp: objectPrototype_def)
  then show False
  proof cases
    case 1 with nc [of "CHR ''G''"] show False by simp
  next
    case 2 with nc [of "CHR ''S''"] show False by simp
  next
    case 3 with nc [of "CHR ''O''"] show False by simp
  next
    case 4 with nc [of "CHR ''G''"] show False by simp
  next
    case 5 with nc [of "CHR ''S''"] show False by simp
  next
    case 6 with nc [of "CHR ''P''"] show False by simp
  next
    case 7 with nc [of "CHR ''E''"] show False by simp
  next
    case 8 with nc [of "CHR ''S''"] show False by simp
  next
    case 9 with nc [of "CHR ''O''"] show False by simp
  next
    case 10 with nc [of "CHR ''L''"] show False by simp
  qed
qed

lemma submitCode_rejects:
  assumes "map_of languageMap (toLowerCase l) = None"
    and "toLowerCase l \<noteq> ''constructor''" and "toLowerCase l \<noteq> ''__proto__''"
  shows "submitCode e cfg code l input w =
           (Inl (Error (''Failed to submit code: Unsupported language: '' @ l)), w)"
proof -
  from assms(2,3) inherited_lowercase [of l]
  have "toLowerCase l \<notin> set objectPrototype" by blast
  with assms(1) have "getLanguageId l = JUndefined"
    by (simp add: getLanguageId_def getProperty_def)
  then show ?thesis by (rule submitCode_unsupported)
qed

lemma submitCode_rejects_example:
  "submitCode e cfg code ''Ruby'' input w =
     (Inl (Error ''Failed to submit code: Unsupported language: Ruby''), w)"
proof -
  have "toLowerCase ''Ruby'' = ''ruby''" by code_simp
  moreover have "map_of languageMap ''ruby'' = None" by code_simp
  ultimately show ?thesis
    using submitCode_rejects [of "''Ruby''" e cfg code input w] by simp
qed

text \<open>
  C5. The language \<open>constructor\<close> has no entry in the language table, but the lookup
  finds the member of that name that every object inherits, which is truthy: the guard
  does not throw and \<open>axios.post\<close> is called, with a submission object that has this
  member as its \<open>language_id\<close>.
\<close>

theorem submitCode_constructor_posts:
  "map_of languageMap ''constructor'' = None \<and>
   requests (snd (submitCode e cfg code ''constructor'' (JStr inp) w)) =
     requests w @
       [Post (baseURL cfg @ ''/submissions'')
          \<lparr>source_code = code, language_id = JObject ''constructor'',
           stdin = JStr inp, base64_encoded = True\<rparr>
          ([(''Content-Type'', ''application/json'')] @ rapidHeaders cfg)]"
proof -
  have l: "getProperty languageMap (toLowerCase ''constructor'') = JObject ''constructor''"
    by code_simp
  have m: "map_of languageMap ''constructor'' = None"
    by code_simp
  show ?thesis
    by (simp add: m submitCode_def l axios_post_def send_def Let_def split: sum.splits)
qed

section \<open>ResponseDecoder\<close>

text \<open>
  Whatever the decoder: each of \<open>stdout\<close>, \<open>stderr\<close> and \<open>compile_output\<close> of the
  decoded record is computed from the same field of the raw record alone, a value that
  is not a non-empty string is kept, and \<open>status\<close>, \<open>time\<close>, \<open>memory\<close> and every
  further property are unchanged.
\<close>

lemma decodeBase64Response_each_field:
  "stdout (decodeBase64Response dec d) = decodeField dec (stdout d) \<and>
   stderr (decodeBase64Response dec d) = decodeField dec (stderr d) \<and>
   compile_output (decodeBase64Response dec d) = decodeField dec (compile_output d) \<and>
   status (decodeBase64Response dec d) = status d \<and>
   time (decodeBase64Response dec d) = time d \<and>
   memory (decodeBase64Response dec d) = memory d \<and>
   result.more (decodeBase64Response dec d) = result.more d"
  by (simp add: decodeBase64Response_def Let_def)

lemma decodeField_not_text:
  "(\<forall>s. v \<noteq> JStr s) \<or> v = JStr [] \<Longrightarrow> decodeField dec v = v"
  by (auto simp: decodeField_def split: jsval.splits)

text \<open>
  The decoder of the platform never throws, so no \<open>catch\<close> ever runs: every non-empty
  string field is replaced by what the decoder makes of it, well-formed or not.
\<close>

lemma decodeField_nodeDecode:
  "s \<noteq> [] \<Longrightarrow> decodeField nodeDecode (JStr s) = JStr (base64ToString s)"
  by (simp add: decodeField_def nodeDecode_def)

lemma base64ToString_examples:
  "base64ToString ''NDI='' = ''42'' \<and> base64ToString ''aGk='' = ''hi'' \<and>
   base64ToString ''d2Fybg=='' = ''warn'' \<and> base64ToString ''%%%'' = [] \<and>
   base64ToString ''NDI'' = ''42'' \<and> base64ToString ''N D!I='' = ''42''"
  by code_simp

text \<open>
  C8. A raw record whose \<open>stdout\<close> is the base64 text \<open>NDI=\<close>, whose \<open>stderr\<close> is
  the malformed text \<open>%%%\<close> and whose \<open>compile_output\<close> is \<open>null\<close>. Decoding
  \<open>%%%\<close> does not throw, it gives the empty string: the malformed field is not left as
  received, it comes back empty.
\<close>

theorem decodeBase64Response_malformed_not_kept:
  "decodeBase64Response nodeDecode
     (rawResult 3 ''Accepted'' (JStr ''NDI='') (JStr ''%%%'') JNull) =
     rawResult 3 ''Accepted'' (JStr ''42'') (JStr []) JNull \<and>
   JStr [] \<noteq> JStr ''%%%''"
  by code_simp

section \<open>The interpreter fails\<close>

text \<open>
  C9. When \<open>llmService.interpretTestCases\<close> throws, \<open>executeTestCasesWithLLM\<close> throws the
  same error: no result sequence is returned and no request has been made.
\<close>

theorem interpretation_failure_propagates:
  "interpretTestCases e tcs language ctx = Inl err \<Longrightarrow>
   executeTestCasesWithLLM e cfg code language tcs ctx w = (Inl err, w)"
  by (simp add: executeTestCasesWithLLM_def)

theorem interpretation_failure_propagates_witness:
  "interpretTestCases brokenLLMEnv fiveCases ''python'' [] =
     Inl (Error ''LLM service unavailable'') \<and>
   executeTestCasesWithLLM brokenLLMEnv cfg0 ''print(42)'' ''python'' fiveCases [] w0 =
     (Inl (Error ''LLM service unavailable''), w0)"
proof -
  have h: "interpretTestCases brokenLLMEnv fiveCases ''python'' [] =
             Inl (Error ''LLM service unavailable'')"
    by (simp add: brokenLLMEnv_def)
  from interpretation_failure_propagates [OF h] h show ?thesis by simp
qed

section \<open>ResultPoller: the polling loop\<close>

lemma getSubmissionResult_clock:
  "getSubmissionResult e cfg token w = (out, w') \<Longrightarrow> clock w \<le> clock w'"
  by (auto simp: getSubmissionResult_def axios_get_def send_def Let_def split: sum.splits)

text \<open>Consecutive polls start at least 1000 ms apart.\<close>

lemma pollWorld_clock_step:
  "clock (pollWorld e cfg token w k) + 1000 \<le> clock (pollWorld e cfg token w (Suc k))"
proof -
  obtain out w1 where g: "getSubmissionResult e cfg token (pollWorld e cfg token w k) = (out, w1)"
    by (cases "getSubmissionResult e cfg token (pollWorld e cfg token w k)")
  from getSubmissionResult_clock [OF g] g show ?thesis
    by (simp add: setTimeout_def)
qed

lemma pollWorld_clock_lower:
  "clock w + 1000 * int k \<le> clock (pollWorld e cfg token w k)"
proof (induction k)
  case 0
  show ?case by simp
next
  case (Suc k)
  with pollWorld_clock_step [of e cfg token w k] show ?case by simp
qed

lemma pollWorld_clock_mono:
  "j \<le> k \<Longrightarrow> clock (pollWorld e cfg token w j) \<le> clock (pollWorld e cfg token w k)"
proof (induction k)
  case 0
  then show ?case by simp
next
  case (Suc k)
  show ?case
  proof (cases "j = Suc k")
    case True
    then show ?thesis by simp
  next
    case False
    with Suc have "clock (pollWorld e cfg token w j) \<le> clock (pollWorld e cfg token w k)"
      by simp
    with pollWorld_clock_step [of e cfg token w k] show ?thesis by simp
  qed
qed

text \<open>While every poll so far started within the budget and is pending, the loop goes on.\<close>

lemma waitLoop_follows_trace:
  "(\<forall>j<k. clock (pollWorld e cfg token w j) - s < m \<and> pending (fetched e cfg token w j)) \<Longrightarrow>
   waitLoop e cfg token m s w = waitLoop e cfg token m s (pollWorld e cfg token w k)"
proof (induction k)
  case 0
  show ?case by simp
next
  case (Suc k)
  let ?p = "pollWorld e cfg token w k"
  from Suc.prems have b: "clock ?p - s < m" and p: "pending (fetched e cfg token w k)"
    by simp_all
  from Suc have "waitLoop e cfg token m s w = waitLoop e cfg token m s ?p"
    by simp
  also have "\<dots> = waitLoop e cfg token m s (pollWorld e cfg token w (Suc k))"
  proof -
    obtain out w1 where g: "getSubmissionResult e cfg token ?p = (out, w1)"
      by (cases "getSubmissionResult e cfg token ?p")
    with p obtain r where r: "out = Inr r" "\<not> completed r"
      by (cases out) (simp_all add: pending_def fetched_def)
    show ?thesis
      using waitLoop.simps [of e cfg token m s ?p] b g r by simp
  qed
  finally show ?case .
qed

text \<open>The loop stops at the first poll that starts out of the budget or is not pending.\<close>

lemma stopping_poll:
  "\<exists>k. (\<forall>j<k. clock (pollWorld e cfg token w j) - s < m \<and> pending (fetched e cfg token w j)) \<and>
       (m \<le> clock (pollWorld e cfg token w k) - s \<or> \<not> pending (fetched e cfg token w k))"
proof -
  let ?stop = "\<lambda>k. m \<le> clock (pollWorld e cfg token w k) - s \<or>
                    \<not> pending (fetched e cfg token w k)"
  have "m \<le> clock (pollWorld e cfg token w (nat (m + s - clock w))) - s"
    using pollWorld_clock_lower [of w "nat (m + s - clock w)" e cfg token] by linarith
  then have "\<exists>k. ?stop k" by blast
  then obtain k where k: "?stop k" "\<forall>j<k. \<not> ?stop j"
    unfolding exists_least_iff [of ?stop] by blast
  from k(2)
  have "\<forall>j<k. clock (pollWorld e cfg token w j) - s < m \<and> pending (fetched e cfg token w j)"
    by (simp add: not_le)
  with k(1) show ?thesis by blast
qed

lemma waitLoop_timeout:
  assumes "\<forall>j<k. clock (pollWorld e cfg token w j) - s < m \<and> pending (fetched e cfg token w j)"
    and "m \<le> clock (pollWorld e cfg token w k) - s"
  shows "waitLoop e cfg token m s w =
           (Inl (Error ''Submission timeout''), pollWorld e cfg token w k)"
  using waitLoop.simps [of e cfg token m s "pollWorld e cfg token w k"] assms(2)
  by (simp add: waitLoop_follows_trace [OF assms(1)])

lemma waitLoop_returns_fetch:
  assumes "\<forall>j<k. clock (pollWorld e cfg token w j) - s < m \<and> pending (fetched e cfg token w j)"
    and b: "clock (pollWorld e cfg token w k) - s < m"
    and np: "\<not> pending (fetched e cfg token w k)"
  shows "waitLoop e cfg token m s w =
           getSubmissionResult e cfg token (pollWorld e cfg token w k)"
proof -
  note f = waitLoop_follows_trace [OF assms(1)]
  obtain out w1 where g: "getSubmissionResult e cfg token (pollWorld e cfg token w k) = (out, w1)"
    by (cases "getSubmissionResult e cfg token (pollWorld e cfg token w k)")
  show ?thesis
  proof (cases out)
    case (Inl err)
    with waitLoop.simps [of e cfg token m s "pollWorld e cfg token w k"] b g show ?thesis
      by (simp add: f)
  next
    case (Inr r)
    with np g have "completed r" by (simp add: pending_def fetched_def)
    with Inr waitLoop.simps [of e cfg token m s "pollWorld e cfg token w k"] b g show ?thesis
      by (simp add: f)
  qed
qed

text \<open>A failed fetch is rethrown as it is: its message is never that of the timeout.\<close>

lemma getSubmissionResult_error:
  "getSubmissionResult e cfg token w = (Inl err, w') \<Longrightarrow>
   \<exists>msg. err = Error (''Failed to get submission result: '' @ msg)"
  by (auto simp: getSubmissionResult_def split: prod.splits sum.splits)

lemma fetch_failure_propagates:
  assumes "\<forall>j<k. clock (pollWorld e cfg token w j) - clock w < m \<and>
                  pending (fetched e cfg token w j)"
    and "clock (pollWorld e cfg token w k) - clock w < m"
    and "fetched e cfg token w k = Inl err"
  shows "fst (waitForSubmission e cfg token m w) = Inl err \<and> err \<noteq> Error ''Submission timeout''"
proof -
  from assms(3) have np: "\<not> pending (fetched e cfg token w k)"
    by (simp add: pending_def)
  obtain w1 where g: "getSubmissionResult e cfg token (pollWorld e cfg token w k) = (Inl err, w1)"
    using assms(3) unfolding fetched_def
    by (cases "getSubmissionResult e cfg token (pollWorld e cfg token w k)") simp
  from getSubmissionResult_error [OF g] have "err \<noteq> Error ''Submission timeout''"
    by auto
  with waitLoop_returns_fetch [OF assms(1) assms(2) np] g show ?thesis
    by (simp add: waitForSubmission_def)
qed

lemma fetched_succeeds:
  "fetches_succeed e \<Longrightarrow> \<exists>r. fetched e cfg token w k = Inr r"
proof -
  assume "fetches_succeed e"
  then obtain d where
    "snd (get_reply e (requests (pollWorld e cfg token w k))
            (Get (baseURL cfg @ ''/submissions/'' @ token @ ''?base64_encoded=true'')
               (rapidHeaders cfg))) = Inr d"
    unfolding fetches_succeed_def by blast
  then show ?thesis
    by (simp add: fetched_def getSubmissionResult_def axios_get_def)
qed

text \<open>
  C2. Where every status fetch returns a result record: \<open>waitForSubmission\<close> returns
  \<open>r\<close> exactly when \<open>r\<close> is the result of a poll that started within the budget, has a
  terminal status (\<open>status.id > 2\<close>) and is the first such result, the polls before it
  each having been followed by the sleep of 1000 ms; and it fails with the error
  \<open>Submission timeout\<close> exactly when no poll that started within the budget returned a
  terminal status.
\<close>

theorem waitForSubmission_first_terminal:
  assumes ok: "fetches_succeed e"
  shows "(waitForSubmission e cfg token m w = (Inr r, w') \<longleftrightarrow>
            (\<exists>k. elapsed_at e cfg token w k < m \<and>
                 getSubmissionResult e cfg token (pollWorld e cfg token w k) = (Inr r, w') \<and>
                 completed r \<and>
                 (\<forall>j<k. \<forall>rj. fetched e cfg token w j = Inr rj \<longrightarrow> \<not> completed rj))) \<and>
         (fst (waitForSubmission e cfg token m w) = Inl (Error ''Submission timeout'') \<longleftrightarrow>
            (\<forall>k rk. elapsed_at e cfg token w k < m \<longrightarrow> fetched e cfg token w k = Inr rk \<longrightarrow>
                    \<not> completed rk))"
proof -
  let ?s = "clock w"
  let ?P = "pollWorld e cfg token w"
  let ?F = "fetched e cfg token w"
  have wl: "waitForSubmission e cfg token m w = waitLoop e cfg token m ?s w"
    by (simp add: waitForSubmission_def)
  have pend: "pending (?F j) \<longleftrightarrow> (\<forall>rj. ?F j = Inr rj \<longrightarrow> \<not> completed rj)" for j
    using fetched_succeeds [OF ok, of cfg token w j] by (auto simp: pending_def)
  obtain k0 where before: "\<forall>j<k0. clock (?P j) - ?s < m \<and> pending (?F j)"
    and stop: "m \<le> clock (?P k0) - ?s \<or> \<not> pending (?F k0)"
    using stopping_poll [of e cfg token w ?s m] by blast
  have early: "j < k0" if "clock (?P j) - ?s < m" and "m \<le> clock (?P k0) - ?s" for j
  proof (rule ccontr)
    assume "\<not> j < k0"
    then have "clock (?P k0) \<le> clock (?P j)" by (simp add: pollWorld_clock_mono)
    with that show False by simp
  qed
  show ?thesis
  proof (cases "m \<le> clock (?P k0) - ?s")
    case True
    have res: "waitForSubmission e cfg token m w = (Inl (Error ''Submission timeout''), ?P k0)"
      unfolding wl by (rule waitLoop_timeout [OF before True])
    have none: "\<not> completed rk" if "elapsed_at e cfg token w k < m" and "?F k = Inr rk" for k rk
    proof -
      from that(1) have "k < k0" using early [of k] True by (simp add: elapsed_at_def)
      with before have "pending (?F k)" by simp
      with that(2) show ?thesis by (simp add: pending_def)
    qed
    have "\<not> (\<exists>k. elapsed_at e cfg token w k < m \<and>
                 getSubmissionResult e cfg token (?P k) = (Inr r, w') \<and> completed r \<and>
                 (\<forall>j<k. \<forall>rj. ?F j = Inr rj \<longrightarrow> \<not> completed rj))"
    proof
      assume "\<exists>k. elapsed_at e cfg token w k < m \<and>
                 getSubmissionResult e cfg token (?P k) = (Inr r, w') \<and> completed r \<and>
                 (\<forall>j<k. \<forall>rj. ?F j = Inr rj \<longrightarrow> \<not> completed rj)"
      then obtain k where k: "elapsed_at e cfg token w k < m"
        "getSubmissionResult e cfg token (?P k) = (Inr r, w')" "completed r"
        by blast
      from k(2) have "?F k = Inr r" by (simp add: fetched_def)
      with none [OF k(1)] k(3) show False by simp
    qed
    with res none show ?thesis by auto
  next
    case False
    then have inb: "clock (?P k0) - ?s < m" by simp
    from False stop have np: "\<not> pending (?F k0)" by simp
    have res: "waitForSubmission e cfg token m w = getSubmissionResult e cfg token (?P k0)"
      unfolding wl by (rule waitLoop_returns_fetch [OF before inb np])
    from fetched_succeeds [OF ok, of cfg token w k0] obtain r0 where r0: "?F k0 = Inr r0"
      by blast
    with np have c0: "completed r0" by (simp add: pending_def)
    obtain w0' where g0: "getSubmissionResult e cfg token (?P k0) = (Inr r0, w0')"
      using r0 unfolding fetched_def
      by (cases "getSubmissionResult e cfg token (?P k0)") simp
    have firsts: "\<forall>j<k0. \<forall>rj. ?F j = Inr rj \<longrightarrow> \<not> completed rj"
      using before pend by blast
    have uniq: "k = k0"
      if k: "getSubmissionResult e cfg token (?P k) = (Inr r, w')" "completed r"
        "\<forall>j<k. \<forall>rj. ?F j = Inr rj \<longrightarrow> \<not> completed rj" for k
    proof (rule ccontr)
      assume "k \<noteq> k0"
      then consider "k < k0" | "k0 < k" by linarith
      then show False
      proof cases
        case 1
        with firsts k(1) k(2) show False by (auto simp: fetched_def)
      next
        case 2
        with k(3) r0 c0 show False by blast
      qed
    qed
    have first: "waitForSubmission e cfg token m w = (Inr r, w') \<longleftrightarrow>
            (\<exists>k. elapsed_at e cfg token w k < m \<and>
                 getSubmissionResult e cfg token (?P k) = (Inr r, w') \<and> completed r \<and>
                 (\<forall>j<k. \<forall>rj. ?F j = Inr rj \<longrightarrow> \<not> completed rj))"
    proof
      assume "waitForSubmission e cfg token m w = (Inr r, w')"
      with res g0 have "r = r0" "w' = w0'" by simp_all
      with inb g0 c0 firsts show "\<exists>k. elapsed_at e cfg token w k < m \<and>
                 getSubmissionResult e cfg token (?P k) = (Inr r, w') \<and> completed r \<and>
                 (\<forall>j<k. \<forall>rj. ?F j = Inr rj \<longrightarrow> \<not> completed rj)"
        by (intro exI [of _ k0]) (simp add: elapsed_at_def)
    next
      assume "\<exists>k. elapsed_at e cfg token w k < m \<and>
                 getSubmissionResult e cfg token (?P k) = (Inr r, w') \<and> completed r \<and>
                 (\<forall>j<k. \<forall>rj. ?F j = Inr rj \<longrightarrow> \<not> completed rj)"
      then obtain k where k: "getSubmissionResult e cfg token (?P k) = (Inr r, w')"
        "completed r" "\<forall>j<k. \<forall>rj. ?F j = Inr rj \<longrightarrow> \<not> completed rj"
        by blast
      from uniq [OF k] k(1) res show "waitForSubmission e cfg token m w = (Inr r, w')"
        by simp
    qed
    have "fst (waitForSubmission e cfg token m w) \<noteq> Inl (Error ''Submission timeout'')"
      using res g0 by simp
    moreover have "\<not> (\<forall>k rk. elapsed_at e cfg token w k < m \<longrightarrow> ?F k = Inr rk \<longrightarrow>
                    \<not> completed rk)"
      using inb r0 c0 by (auto simp: elapsed_at_def)
    ultimately show ?thesis using first by blast
  qed
qed

text \<open>
  Two runs. Against an engine that reports ``Processing'' twice and then ``Accepted'', with
  fetches of 200 ms, the third poll starts after 2400 ms and its result is returned.
  Against an engine that reports ``Processing'' for ever, a budget of 3000 ms ends in the
  timeout.
\<close>

theorem waitForSubmission_first_terminal_witness:
  "fetches_succeed pollEnv \<and>
   elapsed_at pollEnv cfg0 ''tok'' w0 2 = 2400 \<and>
   waitForSubmission pollEnv cfg0 ''tok'' 30000 w0 =
     (Inr (rawResult 3 ''Accepted'' (JStr ''42'') JNull JNull),
      \<lparr>requests = replicate 3 (Get ''https://judge0-ce.p.rapidapi.com/submissions/tok?base64_encoded=true''
                                 [(''X-RapidAPI-Key'', ''key''),
                                  (''X-RapidAPI-Host'', ''judge0-ce.p.rapidapi.com'')]),
        clock = 2600\<rparr>) \<and>
   fetches_succeed (replyEnv (rawResult 2 ''Processing'' JNull JNull JNull)) \<and>
   fst (waitForSubmission (replyEnv (rawResult 2 ''Processing'' JNull JNull JNull))
          cfg0 ''tok'' 3000 w0) = Inl (Error ''Submission timeout'')"
proof -
  let ?run = "rawResult 2 ''Processing'' JNull JNull JNull"
  let ?acc = "rawResult 3 ''Accepted'' (JStr ''42'') JNull JNull"
  let ?w' = "\<lparr>requests = replicate 3 (Get ''https://judge0-ce.p.rapidapi.com/submissions/tok?base64_encoded=true''
                                 [(''X-RapidAPI-Key'', ''key''),
                                  (''X-RapidAPI-Host'', ''judge0-ce.p.rapidapi.com'')]),
              clock = 2600\<rparr>"
  have ok: "fetches_succeed pollEnv"
    by (simp add: fetches_succeed_def pollEnv_def)
  have el: "elapsed_at pollEnv cfg0 ''tok'' w0 2 = 2400"
    by code_simp
  have f0: "fetched pollEnv cfg0 ''tok'' w0 0 = Inr ?run"
    by code_simp
  have f1: "fetched pollEnv cfg0 ''tok'' w0 1 = Inr ?run"
    by code_simp
  have f2: "getSubmissionResult pollEnv cfg0 ''tok'' (pollWorld pollEnv cfg0 ''tok'' w0 2) =
              (Inr ?acc, ?w')"
    by code_simp
  have nr: "\<not> completed ?run" and ca: "completed ?acc"
    by (simp_all add: completed_def rawResult_def)
  have firsts: "\<forall>j<2. \<forall>rj. fetched pollEnv cfg0 ''tok'' w0 j = Inr rj \<longrightarrow> \<not> completed rj"
  proof (intro allI impI)
    fix j :: nat and rj
    assume "j < 2" and rj: "fetched pollEnv cfg0 ''tok'' w0 j = Inr rj"
    then have "j = 0 \<or> j = 1" by linarith
    with rj f0 f1 nr show "\<not> completed rj" by auto
  qed
  have "elapsed_at pollEnv cfg0 ''tok'' w0 2 < 30000"
    using el by simp
  with f2 ca firsts
  have ex: "\<exists>k. elapsed_at pollEnv cfg0 ''tok'' w0 k < 30000 \<and>
              getSubmissionResult pollEnv cfg0 ''tok'' (pollWorld pollEnv cfg0 ''tok'' w0 k) =
                (Inr ?acc, ?w') \<and>
              completed ?acc \<and>
              (\<forall>j<k. \<forall>rj. fetched pollEnv cfg0 ''tok'' w0 j = Inr rj \<longrightarrow> \<not> completed rj)"
    by (intro exI [of _ 2] conjI)
  have a: "waitForSubmission pollEnv cfg0 ''tok'' 30000 w0 = (Inr ?acc, ?w')"
    by (rule iffD2 [OF conjunct1 [OF waitForSubmission_first_terminal [OF ok]] ex])
  have ok2: "fetches_succeed (replyEnv ?run)"
    by (simp add: fetches_succeed_def replyEnv_def)
  have always: "fetched (replyEnv ?run) cfg0 ''tok'' w0 k = Inr ?run" for k
    by (simp add: fetched_def getSubmissionResult_def axios_get_def replyEnv_def
          decodeBase64Response_def decodeField_def rawResult_def)
  have never: "\<forall>k rk. elapsed_at (replyEnv ?run) cfg0 ''tok'' w0 k < 3000 \<longrightarrow>
                 fetched (replyEnv ?run) cfg0 ''tok'' w0 k = Inr rk \<longrightarrow> \<not> completed rk"
    using always nr by simp
  have b: "fst (waitForSubmission (replyEnv ?run) cfg0 ''tok'' 3000 w0) =
             Inl (Error ''Submission timeout'')"
    by (rule iffD2 [OF conjunct2 [OF waitForSubmission_first_terminal [OF ok2]] never])
  from ok el a ok2 b show ?thesis by simp
qed

section \<open>OutcomeClassifier\<close>

lemma handleOutputScenarios_status: "status (handleOutputScenarios r) = status r"
  by (simp add: handleOutputScenarios_def)

lemma executeCode_shape:
  "executeCode e cfg code language input w = (Inr out, w') \<Longrightarrow>
   \<exists>r. out = handleOutputScenarios r"
  by (auto simp: executeCode_def split: prod.splits sum.splits)

text \<open>
  C3, as the claim states it, fails on the single-execution path. The engine answers with
  status 11, description \<open>Runtime Error (NZEC)\<close>, output \<open>hi\<close> and no error text:
  \<open>executeCode\<close> keeps the output and reports the fixed text \<open>Runtime Error\<close>, which is
  neither the status description nor \<open>Unknown Error\<close>, and it gives no verdict.
\<close>

theorem executeCode_other_code_counterexample:
  "fst (executeCode (replyEnv (rawResult 11 ''Runtime Error (NZEC)'' (JStr ''aGk='') JNull JNull))
          cfg0 ''print(42)'' ''python'' (JStr ''1'') w0) =
     Inr (rawResult 11 ''Runtime Error (NZEC)'' (JStr ''hi'') (JStr ''Runtime Error'') (JStr [])) \<and>
   JStr ''Runtime Error'' \<noteq> JStr ''Runtime Error (NZEC)'' \<and>
   JStr ''Runtime Error'' \<noteq> JStr ''Unknown Error'' \<and>
   JStr ''hi'' \<noteq> JStr []"
  by code_simp

text \<open>
  C3, amended. The batch path classifies as the claim says: status 3 gives \<open>PASSED\<close> or
  \<open>FAILED\<close> as \<open>compareOutput\<close> decides, with the output as received (an empty output
  stays empty); status 4 gives \<open>FAILED\<close> with the output as received; status 5 gives
  \<open>TLE\<close> with no output and the error \<open>Time Limit Exceeded\<close>; status 6 gives \<open>CE\<close> with
  no output and the compile output, or \<open>Compilation Error\<close>, as error; any other status
  gives \<open>ERROR\<close> with the status description, or \<open>Unknown Error\<close>, as error.
  The single-execution path gives no verdict and shapes the three text fields only:
  status 3 keeps them, with \<open>No output\<close> for an empty \<open>stdout\<close>; status 6 clears
  \<open>stdout\<close> and \<open>stderr\<close> and defaults \<open>compile_output\<close> to \<open>Compilation Error\<close>;
  status 5 clears \<open>stdout\<close> and \<open>compile_output\<close> and sets \<open>stderr\<close> to
  \<open>Time Limit Exceeded\<close>; every other status, 4 included, keeps \<open>stdout\<close> and
  \<open>compile_output\<close> and defaults \<open>stderr\<close> to \<open>Runtime Error\<close>.
\<close>

theorem classification_shaping:
  "(status_id r = Some 3 \<longrightarrow>
      (\<forall>v. compareOutput (stdout r) (JStr (expected_output tc)) = Inr v \<longrightarrow>
         classifyCase tc r ext =
           Inr \<lparr>testCase = tc, cr_status = (if v then PASSED else FAILED), cr_output = stdout r,
                expected = expected_output tc, executionTime = time r, cr_memory = memory r,
                error = JNull, \<dots> = ext\<rparr>)) \<and>
   (status_id r = Some 4 \<longrightarrow>
      classifyCase tc r ext =
        Inr \<lparr>testCase = tc, cr_status = FAILED, cr_output = stdout r,
             expected = expected_output tc, executionTime = time r, cr_memory = memory r,
             error = JNull, \<dots> = ext\<rparr>) \<and>
   (status_id r = Some 5 \<longrightarrow>
      classifyCase tc r ext =
        Inr \<lparr>testCase = tc, cr_status = TLE, cr_output = JNull,
             expected = expected_output tc, executionTime = JNull, cr_memory = JNull,
             error = JStr ''Time Limit Exceeded'', \<dots> = ext\<rparr>) \<and>
   (status_id r = Some 6 \<longrightarrow>
      classifyCase tc r ext =
        Inr \<lparr>testCase = tc, cr_status = CE, cr_output = JNull,
             expected = expected_output tc, executionTime = JNull, cr_memory = JNull,
             error = (if truthy (compile_output r) then compile_output r
                      else JStr ''Compilation Error''), \<dots> = ext\<rparr>) \<and>
   (status r = Some st \<and> sid st \<notin> {3, 4, 5, 6} \<longrightarrow>
      classifyCase tc r ext =
        Inr \<lparr>testCase = tc, cr_status = ERROR, cr_output = JNull,
             expected = expected_output tc, executionTime = JNull, cr_memory = JNull,
             error = (if truthy (description st) then description st
                      else JStr ''Unknown Error''), \<dots> = ext\<rparr>) \<and>
   (status_id r = Some 3 \<longrightarrow>
      stdout (handleOutputScenarios r) =
        (if truthy (stdout r) then stdout r else JStr ''No output'') \<and>
      stderr (handleOutputScenarios r) = (if truthy (stderr r) then stderr r else JStr []) \<and>
      compile_output (handleOutputScenarios r) =
        (if truthy (compile_output r) then compile_output r else JStr [])) \<and>
   (status_id r = Some 6 \<longrightarrow>
      stdout (handleOutputScenarios r) = JStr [] \<and>
      stderr (handleOutputScenarios r) = JStr [] \<and>
      compile_output (handleOutputScenarios r) =
        (if truthy (compile_output r) then compile_output r else JStr ''Compilation Error'')) \<and>
   (status_id r = Some 5 \<longrightarrow>
      stdout (handleOutputScenarios r) = JStr [] \<and>
      stderr (handleOutputScenarios r) = JStr ''Time Limit Exceeded'' \<and>
      compile_output (handleOutputScenarios r) = JStr []) \<and>
   (status_id r \<notin> {Some 3, Some 5, Some 6} \<longrightarrow>
      stdout (handleOutputScenarios r) = (if truthy (stdout r) then stdout r else JStr []) \<and>
      stderr (handleOutputScenarios r) =
        (if truthy (stderr r) then stderr r else JStr ''Runtime Error'') \<and>
      compile_output (handleOutputScenarios r) =
        (if truthy (compile_output r) then compile_output r else JStr [])) \<and>
   status (handleOutputScenarios r) = status r \<and>
   time (handleOutputScenarios r) = time r \<and>
   memory (handleOutputScenarios r) = memory r"
proof -
  have b3: "status_id r = Some 3 \<longrightarrow>
      (\<forall>v. compareOutput (stdout r) (JStr (expected_output tc)) = Inr v \<longrightarrow>
         classifyCase tc r ext =
           Inr \<lparr>testCase = tc, cr_status = (if v then PASSED else FAILED), cr_output = stdout r,
                expected = expected_output tc, executionTime = time r, cr_memory = memory r,
                error = JNull, \<dots> = ext\<rparr>)"
    by (simp add: classifyCase_def)
  have b4: "status_id r = Some 4 \<longrightarrow>
      classifyCase tc r ext =
        Inr \<lparr>testCase = tc, cr_status = FAILED, cr_output = stdout r,
             expected = expected_output tc, executionTime = time r, cr_memory = memory r,
             error = JNull, \<dots> = ext\<rparr>"
    by (simp add: classifyCase_def)
  have b5: "status_id r = Some 5 \<longrightarrow>
      classifyCase tc r ext =
        Inr \<lparr>testCase = tc, cr_status = TLE, cr_output = JNull,
             expected = expected_output tc, executionTime = JNull, cr_memory = JNull,
             error = JStr ''Time Limit Exceeded'', \<dots> = ext\<rparr>"
    by (simp add: classifyCase_def)
  have b6: "status_id r = Some 6 \<longrightarrow>
      classifyCase tc r ext =
        Inr \<lparr>testCase = tc, cr_status = CE, cr_output = JNull,
             expected = expected_output tc, executionTime = JNull, cr_memory = JNull,
             error = (if truthy (compile_output r) then compile_output r
                      else JStr ''Compilation Error''), \<dots> = ext\<rparr>"
    by (simp add: classifyCase_def or_else_def)
  have bo: "status r = Some st \<and> sid st \<notin> {3, 4, 5, 6} \<longrightarrow>
      classifyCase tc r ext =
        Inr \<lparr>testCase = tc, cr_status = ERROR, cr_output = JNull,
             expected = expected_output tc, executionTime = JNull, cr_memory = JNull,
             error = (if truthy (description st) then description st
                      else JStr ''Unknown Error''), \<dots> = ext\<rparr>"
    by (simp add: classifyCase_def or_else_def status_id_def)
  have s3: "status_id r = Some 3 \<longrightarrow>
      stdout (handleOutputScenarios r) =
        (if truthy (stdout r) then stdout r else JStr ''No output'') \<and>
      stderr (handleOutputScenarios r) = (if truthy (stderr r) then stderr r else JStr []) \<and>
      compile_output (handleOutputScenarios r) =
        (if truthy (compile_output r) then compile_output r else JStr [])"
    by (simp add: handleOutputScenarios_def or_else_def)
  have s6: "status_id r = Some 6 \<longrightarrow>
      stdout (handleOutputScenarios r) = JStr [] \<and>
      stderr (handleOutputScenarios r) = JStr [] \<and>
      compile_output (handleOutputScenarios r) =
        (if truthy (compile_output r) then compile_output r else JStr ''Compilation Error'')"
    by (simp add: handleOutputScenarios_def or_else_def)
  have s5: "status_id r = Some 5 \<longrightarrow>
      stdout (handleOutputScenarios r) = JStr [] \<and>
      stderr (handleOutputScenarios r) = JStr ''Time Limit Exceeded'' \<and>
      compile_output (handleOutputScenarios r) = JStr []"
    by (simp add: handleOutputScenarios_def)
  have so: "status_id r \<notin> {Some 3, Some 5, Some 6} \<longrightarrow>
      stdout (handleOutputScenarios r) = (if truthy (stdout r) then stdout r else JStr []) \<and>
      stderr (handleOutputScenarios r) =
        (if truthy (stderr r) then stderr r else JStr ''Runtime Error'') \<and>
      compile_output (handleOutputScenarios r) =
        (if truthy (compile_output r) then compile_output r else JStr [])"
    by (simp add: handleOutputScenarios_def or_else_def)
  have fr: "status (handleOutputScenarios r) = status r \<and>
            time (handleOutputScenarios r) = time r \<and>
            memory (handleOutputScenarios r) = memory r"
    by (simp add: handleOutputScenarios_def)
  from b3 b4 b5 b6 bo s3 s6 s5 so fr show ?thesis by blast
qed

text \<open>One record for each row of the table, through both paths.\<close>

theorem classification_shaping_witness:
  "classifyCase (mkCase 1 ''1'' ''42'' True)
     (rawResult 3 ''Accepted'' (JStr ''42'') JNull JNull) () =
     Inr \<lparr>testCase = mkCase 1 ''1'' ''42'' True, cr_status = PASSED, cr_output = JStr ''42'',
          expected = ''42'', executionTime = JStr ''0.01'', cr_memory = JNum 2048,
          error = JNull\<rparr> \<and>
   classifyCase (mkCase 1 ''1'' ''42'' True)
     (rawResult 4 ''Wrong Answer'' (JStr ''41'') JNull JNull) () =
     Inr \<lparr>testCase = mkCase 1 ''1'' ''42'' True, cr_status = FAILED, cr_output = JStr ''41'',
          expected = ''42'', executionTime = JStr ''0.01'', cr_memory = JNum 2048,
          error = JNull\<rparr> \<and>
   classifyCase (mkCase 1 ''1'' ''42'' True)
     (rawResult 5 ''Time Limit Exceeded'' (JStr ''4'') JNull JNull) () =
     Inr \<lparr>testCase = mkCase 1 ''1'' ''42'' True, cr_status = TLE, cr_output = JNull,
          expected = ''42'', executionTime = JNull, cr_memory = JNull,
          error = JStr ''Time Limit Exceeded''\<rparr> \<and>
   classifyCase (mkCase 1 ''1'' ''42'' True)
     (rawResult 6 ''Compilation Error'' JNull JNull JNull) () =
     Inr \<lparr>testCase = mkCase 1 ''1'' ''42'' True, cr_status = CE, cr_output = JNull,
          expected = ''42'', executionTime = JNull, cr_memory = JNull,
          error = JStr ''Compilation Error''\<rparr> \<and>
   classifyCase (mkCase 1 ''1'' ''42'' True)
     (rawResult 11 ''Runtime Error (NZEC)'' (JStr ''hi'') JNull JNull) () =
     Inr \<lparr>testCase = mkCase 1 ''1'' ''42'' True, cr_status = ERROR, cr_output = JNull,
          expected = ''42'', executionTime = JNull, cr_memory = JNull,
          error = JStr ''Runtime Error (NZEC)''\<rparr> \<and>
   stdout (handleOutputScenarios (rawResult 3 ''Accepted'' JNull JNull JNull)) =
     JStr ''No output'' \<and>
   compile_output (handleOutputScenarios (rawResult 6 ''Compilation Error'' JNull JNull JNull)) =
     JStr ''Compilation Error'' \<and>
   stderr (handleOutputScenarios (rawResult 5 ''Time Limit Exceeded'' (JStr ''4'') JNull JNull)) =
     JStr ''Time Limit Exceeded'' \<and>
   stderr (handleOutputScenarios (rawResult 4 ''Wrong Answer'' (JStr ''41'') JNull JNull)) =
     JStr ''Runtime Error''"
proof -
  let ?tc = "mkCase 1 ''1'' ''42'' True"
  let ?r3 = "rawResult 3 ''Accepted'' (JStr ''42'') JNull JNull"
  let ?r3e = "rawResult 3 ''Accepted'' JNull JNull JNull"
  let ?r4 = "rawResult 4 ''Wrong Answer'' (JStr ''41'') JNull JNull"
  let ?r5 = "rawResult 5 ''Time Limit Exceeded'' (JStr ''4'') JNull JNull"
  let ?r6 = "rawResult 6 ''Compilation Error'' JNull JNull JNull"
  let ?r11 = "rawResult 11 ''Runtime Error (NZEC)'' (JStr ''hi'') JNull JNull"
  have sid: "status_id (rawResult n d a b c) = Some n" for n d a b c
    by (simp add: status_id_def rawResult_def)
  have other: "status ?r11 = Some \<lparr>sid = 11, description = JStr ''Runtime Error (NZEC)''\<rparr> \<and>
               sid \<lparr>sid = 11, description = JStr ''Runtime Error (NZEC)''\<rparr> \<notin> {3, 4, 5, 6}"
    by (simp add: rawResult_def)
  have single: "status_id ?r4 \<notin> {Some 3, Some 5, Some 6}"
    by (simp add: sid)
  have cmp: "compareOutput (stdout ?r3) (JStr (expected_output ?tc)) = Inr True"
    by (simp add: rawResult_def mkCase_def compareOutput_def)
  note c2 = conjunct2
  note c22 = c2 [THEN c2]
  note c24 = c22 [THEN c22]
  have a3: "classifyCase ?tc ?r3 () =
     Inr \<lparr>testCase = ?tc, cr_status = (if True then PASSED else FAILED), cr_output = stdout ?r3,
          expected = expected_output ?tc, executionTime = time ?r3, cr_memory = memory ?r3,
          error = JNull\<rparr>"
    by (rule classification_shaping [THEN conjunct1, rule_format, OF sid cmp])
  have a4: "classifyCase ?tc ?r4 () =
     Inr \<lparr>testCase = ?tc, cr_status = FAILED, cr_output = stdout ?r4,
          expected = expected_output ?tc, executionTime = time ?r4, cr_memory = memory ?r4,
          error = JNull\<rparr>"
    by (rule classification_shaping [THEN c2, THEN conjunct1, rule_format, OF sid])
  have a5: "classifyCase ?tc ?r5 () =
     Inr \<lparr>testCase = ?tc, cr_status = TLE, cr_output = JNull,
          expected = expected_output ?tc, executionTime = JNull, cr_memory = JNull,
          error = JStr ''Time Limit Exceeded''\<rparr>"
    by (rule classification_shaping [THEN c22, THEN conjunct1, rule_format, OF sid])
  have a6: "classifyCase ?tc ?r6 () =
     Inr \<lparr>testCase = ?tc, cr_status = CE, cr_output = JNull,
          expected = expected_output ?tc, executionTime = JNull, cr_memory = JNull,
          error = (if truthy (compile_output ?r6) then compile_output ?r6
                   else JStr ''Compilation Error'')\<rparr>"
    by (rule classification_shaping [THEN c22, THEN c2, THEN conjunct1, rule_format, OF sid])
  have a11: "classifyCase ?tc ?r11 () =
     Inr \<lparr>testCase = ?tc, cr_status = ERROR, cr_output = JNull,
          expected = expected_output ?tc, executionTime = JNull, cr_memory = JNull,
          error = (if truthy (description \<lparr>sid = 11, description = JStr ''Runtime Error (NZEC)''\<rparr>)
                   then description \<lparr>sid = 11, description = JStr ''Runtime Error (NZEC)''\<rparr>
                   else JStr ''Unknown Error'')\<rparr>"
    by (rule classification_shaping [THEN c24, THEN conjunct1, rule_format, OF other])
  have h3: "stdout (handleOutputScenarios ?r3e) =
              (if truthy (stdout ?r3e) then stdout ?r3e else JStr ''No output'')"
    by (rule classification_shaping
               [THEN c24, THEN c2, THEN conjunct1, rule_format, OF sid, THEN conjunct1])
  have h6: "compile_output (handleOutputScenarios ?r6) =
              (if truthy (compile_output ?r6) then compile_output ?r6
               else JStr ''Compilation Error'')"
    by (rule classification_shaping
               [THEN c24, THEN c22, THEN conjunct1, rule_format, OF sid, THEN c22])
  have h5: "stderr (handleOutputScenarios ?r5) = JStr ''Time Limit Exceeded''"
    by (rule classification_shaping
               [THEN c24, THEN c22, THEN c2, THEN conjunct1, rule_format, OF sid,
                THEN c2, THEN conjunct1])
  have h4: "stderr (handleOutputScenarios ?r4) =
              (if truthy (stderr ?r4) then stderr ?r4 else JStr ''Runtime Error'')"
    by (rule classification_shaping
               [THEN c24, THEN c24, THEN conjunct1, rule_format, OF single,
                THEN c2, THEN conjunct1])
  from a3 a4 a5 a6 a11 h3 h6 h5 h4 show ?thesis
    by (simp add: rawResult_def mkCase_def)
qed

section \<open>Populated fields of a single execution\<close>

lemma or_else_populated: "populated d \<Longrightarrow> populated (or_else a d)"
  by (cases a) (auto simp: or_else_def populated_def absent_or_empty_def)

lemma populated_simps:
  "\<not> populated (JStr [])" "s \<noteq> [] \<Longrightarrow> populated (JStr s)"
  by (simp_all add: populated_def absent_or_empty_def)

text \<open>
  C7, as the claim states it, fails. The engine accepts a run (status 3) that wrote
  \<open>hi\<close> to standard output and \<open>warn\<close> to standard error, with the compiler warning
  \<open>warn\<close>: \<open>executeCode\<close> returns all three fields populated.
\<close>

theorem executeCode_all_populated_counterexample:
  "fst (executeCode
          (replyEnv (rawResult 3 ''Accepted'' (JStr ''aGk='') (JStr ''d2Fybg=='') (JStr ''d2Fybg=='')))
          cfg0 ''print(42)'' ''python'' (JStr ''1'') w0) =
     Inr (rawResult 3 ''Accepted'' (JStr ''hi'') (JStr ''warn'') (JStr ''warn'')) \<and>
   populated (stdout (rawResult 3 ''Accepted'' (JStr ''hi'') (JStr ''warn'') (JStr ''warn''))) \<and>
   populated (stderr (rawResult 3 ''Accepted'' (JStr ''hi'') (JStr ''warn'') (JStr ''warn''))) \<and>
   populated (compile_output
                (rawResult 3 ''Accepted'' (JStr ''hi'') (JStr ''warn'') (JStr ''warn'')))"
  by code_simp

text \<open>
  C7, amended. Every result that \<open>executeCode\<close> returns has at least one of
  \<open>stdout\<close>, \<open>compile_output\<close> and \<open>stderr\<close> populated. For status 5 exactly
  \<open>stderr\<close> is populated and for status 6 exactly \<open>compile_output\<close>. For status 3
  \<open>stdout\<close> is populated and for every other status \<open>stderr\<close> is; there the other two
  fields are kept as the engine returned them.
\<close>

theorem executeCode_populated:
  assumes "executeCode e cfg code language input w = (Inr out, w')"
  shows "(populated (stdout out) \<or> populated (stderr out) \<or> populated (compile_output out)) \<and>
         (status_id out = Some 5 \<longrightarrow>
            \<not> populated (stdout out) \<and> populated (stderr out) \<and>
            \<not> populated (compile_output out)) \<and>
         (status_id out = Some 6 \<longrightarrow>
            \<not> populated (stdout out) \<and> \<not> populated (stderr out) \<and>
            populated (compile_output out)) \<and>
         (status_id out = Some 3 \<longrightarrow> populated (stdout out)) \<and>
         (status_id out \<notin> {Some 3, Some 5, Some 6} \<longrightarrow> populated (stderr out))"
proof -
  from executeCode_shape [OF assms] obtain r where out: "out = handleOutputScenarios r"
    by blast
  have sid: "status_id out = status_id r"
    by (simp add: out status_id_def handleOutputScenarios_status)
  have p1: "populated (or_else a (JStr ''No output''))"
    and p2: "populated (or_else a (JStr ''Compilation Error''))"
    and p3: "populated (or_else a (JStr ''Runtime Error''))"
    and p4: "populated (JStr ''Time Limit Exceeded'')" for a
    by (simp_all add: or_else_populated populated_simps)
  consider "status_id r = Some 3" | "status_id r = Some 6" | "status_id r = Some 5"
    | "status_id r \<notin> {Some 3, Some 5, Some 6}"
    by blast
  then show ?thesis
  proof cases
    case 1
    then show ?thesis
      unfolding sid by (simp add: out handleOutputScenarios_def p1)
  next
    case 2
    then show ?thesis
      unfolding sid by (simp add: out handleOutputScenarios_def p2 populated_simps)
  next
    case 3
    then show ?thesis
      unfolding sid by (simp add: out handleOutputScenarios_def p4 populated_simps)
  next
    case 4
    then show ?thesis
      unfolding sid by (simp add: out handleOutputScenarios_def p3)
  qed
qed

text \<open>A run that exceeds the time limit: only \<open>stderr\<close> is populated.\<close>

theorem executeCode_populated_witness:
  "fst (executeCode (replyEnv (rawResult 5 ''Time Limit Exceeded'' (JStr ''aGk='') JNull JNull))
          cfg0 ''print(42)'' ''python'' (JStr ''1'') w0) =
     Inr (rawResult 5 ''Time Limit Exceeded'' (JStr []) (JStr ''Time Limit Exceeded'') (JStr [])) \<and>
   \<not> populated (stdout (rawResult 5 ''Time Limit Exceeded'' (JStr [])
                          (JStr ''Time Limit Exceeded'') (JStr []))) \<and>
   populated (stderr (rawResult 5 ''Time Limit Exceeded'' (JStr [])
                        (JStr ''Time Limit Exceeded'') (JStr []))) \<and>
   \<not> populated (compile_output (rawResult 5 ''Time Limit Exceeded'' (JStr [])
                                  (JStr ''Time Limit Exceeded'') (JStr [])))"
proof -
  let ?E = "replyEnv (rawResult 5 ''Time Limit Exceeded'' (JStr ''aGk='') JNull JNull)"
  let ?out = "rawResult 5 ''Time Limit Exceeded'' (JStr []) (JStr ''Time Limit Exceeded'') (JStr [])"
  have f: "fst (executeCode ?E cfg0 ''print(42)'' ''python'' (JStr ''1'') w0) = Inr ?out"
    by code_simp
  then obtain w' where
    run: "executeCode ?E cfg0 ''print(42)'' ''python'' (JStr ''1'') w0 = (Inr ?out, w')"
    by (cases "executeCode ?E cfg0 ''print(42)'' ''python'' (JStr ''1'') w0") simp
  have s: "status_id ?out = Some 5"
    by (simp add: status_id_def rawResult_def)
  from executeCode_populated [OF run] s f show ?thesis by simp
qed

section \<open>TestCaseOrchestrator: the plain batch\<close>

lemma classifyCase_testCase:
  "classifyCase tc r ext = Inr cr \<Longrightarrow> testCase cr = tc \<and> caseResult.more cr = ext"
  by (auto simp: classifyCase_def split: if_splits sum.splits)

lemma processCase_testCase: "testCase (fst (processCase e cfg code language tc w)) = tc"
  by (auto simp: processCase_def tryCase_def caughtResult_def
           split: prod.splits sum.splits dest: classifyCase_testCase)

lemma caseLoop_append:
  "caseLoop e cfg code language (xs @ ys) results w =
     (case caseLoop e cfg code language xs results w of
        (rs, w') \<Rightarrow> caseLoop e cfg code language ys rs w')"
  by (induction xs arbitrary: results w) (auto split: prod.splits)

lemma caseLoop_length:
  "length (fst (caseLoop e cfg code language tcs results w)) = length results + length tcs"
  by (induction tcs arbitrary: results w) (auto split: prod.splits)

text \<open>
  The result at position \<open>i\<close> is what the round for test case \<open>i\<close> pushes, run in the
  world that the first \<open>i\<close> rounds leave behind.
\<close>

lemma caseLoop_nth:
  "i < length tcs \<Longrightarrow>
   fst (caseLoop e cfg code language tcs [] w) ! i =
     fst (processCase e cfg code language (tcs ! i)
            (snd (caseLoop e cfg code language (take i tcs) [] w)))"
proof (induction tcs arbitrary: i rule: rev_induct)
  case Nil
  then show ?case by simp
next
  case (snoc x xs)
  obtain rs w1 where l: "caseLoop e cfg code language xs [] w = (rs, w1)"
    by (cases "caseLoop e cfg code language xs [] w")
  have len: "length rs = length xs"
    using caseLoop_length [of e cfg code language xs "[]" w] l by simp
  obtain cr w2 where p: "processCase e cfg code language x w1 = (cr, w2)"
    by (cases "processCase e cfg code language x w1")
  have all: "fst (caseLoop e cfg code language (xs @ [x]) [] w) = rs @ [cr]"
    by (simp add: caseLoop_append l p)
  show ?case
  proof (cases "i < length xs")
    case True
    with snoc.IH [of i] l len all show ?thesis by (simp add: nth_append)
  next
    case False
    with snoc.prems have "i = length xs" by simp
    with l len all p show ?thesis by (simp add: nth_append)
  qed
qed

lemma executeTestCases_snd:
  "snd (executeTestCases e cfg code language tcs w) = snd (caseLoop e cfg code language tcs [] w)"
  by (simp add: executeTestCases_def split: prod.splits)

text \<open>
  C1. \<open>executeTestCases\<close> never throws: it returns a sequence with one result per test
  case, in the order of the test cases. The result at position \<open>i\<close> belongs to test case
  \<open>i\<close>; when the pipeline of that case (submission, polling, classification) throws, the
  result has status \<open>ERROR\<close> and carries the message of what was thrown, and when it does
  not throw, the result is the one that pipeline computed.
\<close>

theorem executeTestCases_isolates:
  "\<exists>rs w'. executeTestCases e cfg code language tcs w = (Inr rs, w') \<and>
     length rs = length tcs \<and>
     (\<forall>i<length tcs.
        testCase (rs ! i) = tcs ! i \<and>
        (\<forall>err. fst (tryCase e cfg code language (tcs ! i)
                      (snd (executeTestCases e cfg code language (take i tcs) w))) = Inl err \<longrightarrow>
           cr_status (rs ! i) = ERROR \<and> error (rs ! i) = JStr (message err)) \<and>
        (\<forall>cr. fst (tryCase e cfg code language (tcs ! i)
                     (snd (executeTestCases e cfg code language (take i tcs) w))) = Inr cr \<longrightarrow>
           rs ! i = cr))"
proof -
  obtain rs w' where l: "caseLoop e cfg code language tcs [] w = (rs, w')"
    by (cases "caseLoop e cfg code language tcs [] w")
  have ex: "executeTestCases e cfg code language tcs w = (Inr rs, w')"
    by (simp add: executeTestCases_def l)
  have len: "length rs = length tcs"
    using caseLoop_length [of e cfg code language tcs "[]" w] l by simp
  have each: "rs ! i = fst (processCase e cfg code language (tcs ! i)
                 (snd (executeTestCases e cfg code language (take i tcs) w)))"
    if "i < length tcs" for i
    using caseLoop_nth [OF that, of e cfg code language w] l
    by (simp add: executeTestCases_snd)
  have "testCase (rs ! i) = tcs ! i \<and>
        (\<forall>err. fst (tryCase e cfg code language (tcs ! i)
                      (snd (executeTestCases e cfg code language (take i tcs) w))) = Inl err \<longrightarrow>
           cr_status (rs ! i) = ERROR \<and> error (rs ! i) = JStr (message err)) \<and>
        (\<forall>cr. fst (tryCase e cfg code language (tcs ! i)
                     (snd (executeTestCases e cfg code language (take i tcs) w))) = Inr cr \<longrightarrow>
           rs ! i = cr)"
    if "i < length tcs" for i
    unfolding each [OF that]
    by (auto simp: processCase_testCase)
       (auto simp: processCase_def caughtResult_def split: prod.splits)
  with ex len show ?thesis by blast
qed

text \<open>
  Five test cases against an engine that accepts every run with output \<open>42\<close> and refuses
  the submission of the third: five results, the third is \<open>ERROR\<close> with the message of the
  refusal, and the first two are \<open>PASSED\<close> and \<open>FAILED\<close> as their expected outputs say.
\<close>

theorem executeTestCases_isolates_witness:
  "\<exists>rs w'. executeTestCases (replyEnv (rawResult 3 ''Accepted'' (JStr ''NDI='') JNull JNull))
              cfg0 ''print(42)'' ''python'' fiveCases w0 = (Inr rs, w') \<and>
     length rs = 5 \<and>
     testCase (rs ! 2) = mkCase 3 ''boom'' ''42'' False \<and>
     cr_status (rs ! 2) = ERROR \<and>
     error (rs ! 2) =
       JStr ''Judge0 service is temporarily unavailable. Please try again later.'' \<and>
     cr_status (rs ! 0) = PASSED \<and> cr_status (rs ! 1) = FAILED \<and> cr_status (rs ! 3) = PASSED"
proof -
  let ?E = "replyEnv (rawResult 3 ''Accepted'' (JStr ''NDI='') JNull JNull)"
  let ?W = "\<lambda>i. snd (executeTestCases ?E cfg0 ''print(42)'' ''python'' (take i fiveCases) w0)"
  let ?T = "\<lambda>i. fst (tryCase ?E cfg0 ''print(42)'' ''python'' (fiveCases ! i) (?W i))"
  let ?ok = "\<lambda>tc v. \<lparr>testCase = tc, cr_status = v, cr_output = JStr ''42'',
                       expected = expected_output tc, executionTime = JStr ''0.01'',
                       cr_memory = JNum 2048, error = JNull\<rparr>"
  have n: "length fiveCases = 5" by (simp add: fiveCases_def)
  have t0: "?T 0 = Inr (?ok (mkCase 1 ''1'' ''42'' True) PASSED)" by code_simp
  have t1: "?T 1 = Inr (?ok (mkCase 2 ''2'' ''41'' False) FAILED)" by code_simp
  have t2: "?T 2 =
      Inl (Error ''Judge0 service is temporarily unavailable. Please try again later.'')"
    by code_simp
  have t3: "?T 3 = Inr (?ok (mkCase 4 ''4'' ''42'' False) PASSED)" by code_simp
  have c2: "fiveCases ! 2 = mkCase 3 ''boom'' ''42'' False" by (simp add: fiveCases_def)
  from executeTestCases_isolates [of ?E cfg0 "''print(42)''" "''python''" fiveCases w0]
  obtain rs w' where
    ex: "executeTestCases ?E cfg0 ''print(42)'' ''python'' fiveCases w0 = (Inr rs, w')"
    and len: "length rs = length fiveCases"
    and each: "\<forall>i<length fiveCases.
        testCase (rs ! i) = fiveCases ! i \<and>
        (\<forall>err. ?T i = Inl err \<longrightarrow>
           cr_status (rs ! i) = ERROR \<and> error (rs ! i) = JStr (message err)) \<and>
        (\<forall>cr. ?T i = Inr cr \<longrightarrow> rs ! i = cr)"
    by blast
  from each n t0 have r0: "cr_status (rs ! 0) = PASSED" by simp
  from each n t1 have r1: "cr_status (rs ! 1) = FAILED" by simp
  from each n t3 have r3: "cr_status (rs ! 3) = PASSED" by simp
  from each n t2 c2 have r2: "testCase (rs ! 2) = mkCase 3 ''boom'' ''42'' False"
    "cr_status (rs ! 2) = ERROR"
    "error (rs ! 2) = JStr ''Judge0 service is temporarily unavailable. Please try again later.''"
    by simp_all
  from ex len n r0 r1 r2 r3 show ?thesis by simp
qed

section \<open>TestCaseOrchestrator: the interpreted batch\<close>

lemma stdinsOf_append: "stdinsOf (xs @ ys) = stdinsOf xs @ stdinsOf ys"
  by (induction xs rule: stdinsOf.induct) simp_all

lemma getSubmissionResult_stdins:
  "stdinsOf (requests (snd (getSubmissionResult e cfg token w))) = stdinsOf (requests w)"
  by (simp add: getSubmissionResult_def axios_get_def send_def Let_def stdinsOf_append
           split: sum.splits)

text \<open>Polling posts nothing.\<close>

lemma waitLoop_stdins:
  "stdinsOf (requests (snd (waitLoop e cfg token m s w))) = stdinsOf (requests w)"
proof (induction e cfg token m s w rule: waitLoop.induct)
  case (1 e cfg token m s w)
  obtain out w1 where g: "getSubmissionResult e cfg token w = (out, w1)"
    by (cases "getSubmissionResult e cfg token w")
  have w1: "stdinsOf (requests w1) = stdinsOf (requests w)"
    using getSubmissionResult_stdins [of e cfg token w] g by simp
  show ?case
  proof (cases "clock w - s < m")
    case False
    then show ?thesis by (subst waitLoop.simps) simp
  next
    case True
    show ?thesis
    proof (cases out)
      case (Inl err)
      with True g w1 show ?thesis by (subst waitLoop.simps) simp
    next
      case (Inr r)
      show ?thesis
      proof (cases "completed r")
        case True
        with \<open>clock w - s < m\<close> Inr g w1 show ?thesis by (subst waitLoop.simps) simp
      next
        case False
        from "1.IH" [OF \<open>clock w - s < m\<close> g [symmetric] Inr False]
        have "stdinsOf (requests (snd (waitLoop e cfg token m s (setTimeout 1000 w1)))) =
                stdinsOf (requests w1)"
          by (simp add: setTimeout_def)
        with \<open>clock w - s < m\<close> Inr g w1 False show ?thesis
          by (subst waitLoop.simps) simp
      qed
    qed
  qed
qed

lemma waitForSubmission_stdins:
  "stdinsOf (requests (snd (waitForSubmission e cfg token m w))) = stdinsOf (requests w)"
  by (simp add: waitForSubmission_def waitLoop_stdins)

text \<open>
  \<open>submitCode\<close> posts exactly one submission, whose \<open>stdin\<close> is its input, when the
  language resolves, and none otherwise.
\<close>

lemma submitCode_stdins:
  "input \<noteq> JUndefined \<Longrightarrow>
   stdinsOf (requests (snd (submitCode e cfg code language input w))) =
     stdinsOf (requests w) @ (if truthy (getLanguageId language) then [input] else [])"
  by (auto simp: submitCode_def getLanguageId_def axios_post_def send_def Let_def
                 stdinsOf_append
           split: sum.splits)

lemma inputToUse_defined: "inputToUse tc it \<noteq> JUndefined"
  by (auto simp: inputToUse_def)

lemma tryCaseLLM_stdins:
  "stdinsOf (requests (snd (tryCaseLLM e cfg code language tc (Some it) w))) =
     stdinsOf (requests w) @
       (if truthy (getLanguageId language) then [inputToUse tc it] else [])"
proof -
  obtain out w1 where s: "submitCode e cfg code language (inputToUse tc it) w = (out, w1)"
    by (cases "submitCode e cfg code language (inputToUse tc it) w")
  from submitCode_stdins [OF inputToUse_defined, of e cfg code language tc it w] s
  have new: "stdinsOf (requests w1) =
               stdinsOf (requests w) @
                 (if truthy (getLanguageId language) then [inputToUse tc it] else [])"
    by simp
  show ?thesis
  proof (cases out)
    case (Inl err)
    with s new show ?thesis by (simp add: tryCaseLLM_def)
  next
    case (Inr token)
    obtain out2 w2 where p: "waitForSubmission e cfg token 30000 w1 = (out2, w2)"
      by (cases "waitForSubmission e cfg token 30000 w1")
    from waitForSubmission_stdins [of e cfg token 30000 w1] p
    have "stdinsOf (requests w2) = stdinsOf (requests w1)" by simp
    with Inr s p new show ?thesis
      by (cases out2) (simp_all add: tryCaseLLM_def)
  qed
qed

lemma processCaseLLM_snd:
  "snd (processCaseLLM e cfg code language tc ip w) =
   snd (tryCaseLLM e cfg code language tc ip w)"
  by (simp add: processCaseLLM_def split: prod.splits sum.splits)

text \<open>What a round records as \<open>usedInput\<close>.\<close>

lemma processCaseLLM_usedInput:
  "usedInput (caseResult.more (fst (processCaseLLM e cfg code language tc ip w))) =
     (case fst (tryCaseLLM e cfg code language tc ip w) of
        Inl err \<Rightarrow> JStr (input_data tc)
      | Inr cr \<Rightarrow> (case ip of Some it \<Rightarrow> inputToUse tc it | None \<Rightarrow> JStr (input_data tc)))"
  by (auto simp: processCaseLLM_def tryCaseLLM_def caughtResult_def
           split: prod.splits sum.splits option.splits dest: classifyCase_testCase)

lemma processCaseLLM_caught:
  "fst (tryCaseLLM e cfg code language tc ip w) = Inl err \<Longrightarrow>
   cr_status (fst (processCaseLLM e cfg code language tc ip w)) = ERROR \<and>
   error (fst (processCaseLLM e cfg code language tc ip w)) = JStr (message err)"
  by (auto simp: processCaseLLM_def caughtResult_def split: prod.splits)

text \<open>The loop from round \<open>i\<close> on, in terms of the rounds.\<close>

lemma llmLoop_trace:
  "i \<le> length tcs \<Longrightarrow>
   llmLoop e cfg code language tcs ip i results (llmWorld e cfg code language tcs ip w i) =
     (results @
        map (\<lambda>j. fst (processCaseLLM e cfg code language (tcs ! j) (nth_opt ip j)
                        (llmWorld e cfg code language tcs ip w j))) [i..<length tcs],
      llmWorld e cfg code language tcs ip w (length tcs))"
proof (induction "length tcs - i" arbitrary: i results)
  case 0
  then have "i = length tcs" by simp
  then show ?case by (subst llmLoop.simps) simp
next
  case (Suc n)
  then have lt: "i < length tcs" and n: "n = length tcs - Suc i" and le: "Suc i \<le> length tcs"
    by simp_all
  let ?W = "llmWorld e cfg code language tcs ip w"
  obtain cr w1 where
    p: "processCaseLLM e cfg code language (tcs ! i) (nth_opt ip i) (?W i) = (cr, w1)"
    by (cases "processCaseLLM e cfg code language (tcs ! i) (nth_opt ip i) (?W i)")
  then have w1: "w1 = ?W (Suc i)" by simp
  have "llmLoop e cfg code language tcs ip i results (?W i) =
          llmLoop e cfg code language tcs ip (Suc i) (results @ [cr]) w1"
    using lt p by (subst llmLoop.simps) simp
  also have "\<dots> = llmLoop e cfg code language tcs ip (Suc i) (results @ [cr]) (?W (Suc i))"
    by (simp only: w1)
  also have "\<dots> = ((results @ [cr]) @
        map (\<lambda>j. fst (processCaseLLM e cfg code language (tcs ! j) (nth_opt ip j) (?W j)))
          [Suc i..<length tcs], ?W (length tcs))"
    by (rule Suc.hyps(1) [OF n le])
  also have "(results @ [cr]) @
        map (\<lambda>j. fst (processCaseLLM e cfg code language (tcs ! j) (nth_opt ip j) (?W j)))
          [Suc i..<length tcs] =
      results @
        map (\<lambda>j. fst (processCaseLLM e cfg code language (tcs ! j) (nth_opt ip j) (?W j)))
          [i..<length tcs]"
    using lt p by (simp add: upt_conv_Cons)
  finally show ?case .
qed

text \<open>
  C4. In \<open>executeTestCasesWithLLM\<close>, for a test case whose interpretation is missing,
  has \<open>success\<close> false or has no (or an empty) \<open>formatted_input\<close>, the recorded
  \<open>usedInput\<close> is the original \<open>input_data\<close>, and what is posted while that case is
  processed is exactly one submission with the original \<open>input_data\<close> as \<open>stdin\<close>
  (none when the language does not resolve or the interpretation is missing). For any
  test case whose processing throws, the result has status \<open>ERROR\<close> and records the
  original \<open>input_data\<close> as \<open>usedInput\<close>.
\<close>

theorem llm_fallback_original_input:
  assumes ip: "interpretTestCases e tcs language ctx = Inr ip"
    and i: "i < length tcs"
  shows "\<exists>rs w'. executeTestCasesWithLLM e cfg code language tcs ctx w = (Inr rs, w') \<and>
     length rs = length tcs \<and>
     ((\<forall>it. nth_opt ip i = Some it \<longrightarrow> \<not> success it \<or> \<not> truthy (formatted_input it)) \<longrightarrow>
        usedInput (caseResult.more (rs ! i)) = JStr (input_data (tcs ! i)) \<and>
        stdinsOf (requests (llmWorld e cfg code language tcs ip w (Suc i))) =
          stdinsOf (requests (llmWorld e cfg code language tcs ip w i)) @
            (if truthy (getLanguageId language) \<and> nth_opt ip i \<noteq> None
             then [JStr (input_data (tcs ! i))] else [])) \<and>
     (\<forall>err. fst (tryCaseLLM e cfg code language (tcs ! i) (nth_opt ip i)
                   (llmWorld e cfg code language tcs ip w i)) = Inl err \<longrightarrow>
        cr_status (rs ! i) = ERROR \<and> error (rs ! i) = JStr (message err) \<and>
        usedInput (caseResult.more (rs ! i)) = JStr (input_data (tcs ! i)))"
proof -
  let ?W = "llmWorld e cfg code language tcs ip w"
  let ?R = "\<lambda>j. fst (processCaseLLM e cfg code language (tcs ! j) (nth_opt ip j) (?W j))"
  let ?rs = "map ?R [0..<length tcs]"
  have loop: "llmLoop e cfg code language tcs ip 0 [] w = (?rs, ?W (length tcs))"
    using llmLoop_trace [of 0 tcs e cfg code language ip "[]" w] by simp
  have ex: "executeTestCasesWithLLM e cfg code language tcs ctx w = (Inr ?rs, ?W (length tcs))"
    by (simp add: executeTestCasesWithLLM_def ip loop)
  have nth: "?rs ! i = ?R i"
    using i by simp
  have fallback: "usedInput (caseResult.more (?rs ! i)) = JStr (input_data (tcs ! i)) \<and>
        stdinsOf (requests (?W (Suc i))) =
          stdinsOf (requests (?W i)) @
            (if truthy (getLanguageId language) \<and> nth_opt ip i \<noteq> None
             then [JStr (input_data (tcs ! i))] else [])"
    if fb: "\<forall>it. nth_opt ip i = Some it \<longrightarrow> \<not> success it \<or> \<not> truthy (formatted_input it)"
  proof (cases "nth_opt ip i")
    case None
    have "?W (Suc i) = ?W i"
      by (simp add: processCaseLLM_snd None tryCaseLLM_def)
    moreover have "usedInput (caseResult.more (?R i)) = JStr (input_data (tcs ! i))"
      by (simp add: processCaseLLM_usedInput None split: sum.splits)
    ultimately show ?thesis
      unfolding nth by (simp add: None)
  next
    case (Some it)
    with fb have use: "inputToUse (tcs ! i) it = JStr (input_data (tcs ! i))"
      by (auto simp: inputToUse_def)
    have "usedInput (caseResult.more (?R i)) = JStr (input_data (tcs ! i))"
      by (simp add: processCaseLLM_usedInput Some use split: sum.splits)
    moreover have "stdinsOf (requests (?W (Suc i))) =
          stdinsOf (requests (?W i)) @
            (if truthy (getLanguageId language) then [JStr (input_data (tcs ! i))] else [])"
      using tryCaseLLM_stdins [of e cfg code language "tcs ! i" it "?W i"]
      by (simp add: processCaseLLM_snd Some use)
    ultimately show ?thesis
      unfolding nth by (simp add: Some)
  qed
  have caught: "cr_status (?rs ! i) = ERROR \<and> error (?rs ! i) = JStr (message err) \<and>
        usedInput (caseResult.more (?rs ! i)) = JStr (input_data (tcs ! i))"
    if "fst (tryCaseLLM e cfg code language (tcs ! i) (nth_opt ip i) (?W i)) = Inl err" for err
    unfolding nth
    using processCaseLLM_caught [OF that] that
    by (simp add: processCaseLLM_usedInput)
  have "length ?rs = length tcs" by simp
  with ex fallback caught show ?thesis by blast
qed

text \<open>
  Three test cases, with an interpreter that succeeds on the sample cases only and
  reverses every input. The first is a sample: the interpreted input \<open>ba\<close> is posted.
  The second is not: its interpretation \<open>dc\<close> is set aside, the original \<open>cd\<close> is
  recorded and is the one submission posted for it. The third is a sample with input
  \<open>moob\<close>: the engine refuses the interpreted input \<open>boom\<close>, and the \<open>ERROR\<close> result
  records \<open>moob\<close>.
\<close>

theorem llm_fallback_original_input_witness:
  "interpretTestCases (replyEnv (rawResult 3 ''Accepted'' (JStr ''NDI='') JNull JNull))
     llmCases ''python'' [] =
     Inr [\<lparr>success = True, formatted_input = JStr ''ba''\<rparr>,
          \<lparr>success = False, formatted_input = JStr ''dc''\<rparr>,
          \<lparr>success = True, formatted_input = JStr ''boom''\<rparr>] \<and>
   stdinsOf (requests
     (llmWorld (replyEnv (rawResult 3 ''Accepted'' (JStr ''NDI='') JNull JNull))
        cfg0 ''print(42)'' ''python'' llmCases
        [\<lparr>success = True, formatted_input = JStr ''ba''\<rparr>,
         \<lparr>success = False, formatted_input = JStr ''dc''\<rparr>,
         \<lparr>success = True, formatted_input = JStr ''boom''\<rparr>] w0 1)) = [JStr ''ba''] \<and>
   stdinsOf (requests
     (llmWorld (replyEnv (rawResult 3 ''Accepted'' (JStr ''NDI='') JNull JNull))
        cfg0 ''print(42)'' ''python'' llmCases
        [\<lparr>success = True, formatted_input = JStr ''ba''\<rparr>,
         \<lparr>success = False, formatted_input = JStr ''dc''\<rparr>,
         \<lparr>success = True, formatted_input = JStr ''boom''\<rparr>] w0 2)) =
     [JStr ''ba'', JStr ''cd''] \<and>
   (\<exists>rs w'. executeTestCasesWithLLM (replyEnv (rawResult 3 ''Accepted'' (JStr ''NDI='') JNull JNull))
               cfg0 ''print(42)'' ''python'' llmCases [] w0 = (Inr rs, w') \<and>
            length rs = 3 \<and>
            usedInput (caseResult.more (rs ! 1)) = JStr ''cd'') \<and>
   (\<exists>rs w'. executeTestCasesWithLLM (replyEnv (rawResult 3 ''Accepted'' (JStr ''NDI='') JNull JNull))
               cfg0 ''print(42)'' ''python'' llmCases [] w0 = (Inr rs, w') \<and>
            cr_status (rs ! 2) = ERROR \<and>
            error (rs ! 2) =
              JStr ''Judge0 service is temporarily unavailable. Please try again later.'' \<and>
            usedInput (caseResult.more (rs ! 2)) = JStr ''moob'')"
proof -
  let ?E = "replyEnv (rawResult 3 ''Accepted'' (JStr ''NDI='') JNull JNull)"
  let ?ip = "[\<lparr>success = True, formatted_input = JStr ''ba''\<rparr>,
              \<lparr>success = False, formatted_input = JStr ''dc''\<rparr>,
              \<lparr>success = True, formatted_input = JStr ''boom''\<rparr>]"
  let ?W = "llmWorld ?E cfg0 ''print(42)'' ''python'' llmCases ?ip w0"
  have ip: "interpretTestCases ?E llmCases ''python'' [] = Inr ?ip"
    by (simp add: replyEnv_def sampleInterpret_def llmCases_def mkCase_def)
  have n: "length llmCases = 3" by (simp add: llmCases_def)
  have i1: "1 < length llmCases" and i2: "2 < length llmCases"
    by (simp_all add: n)
  have c1: "input_data (llmCases ! 1) = ''cd''" and c2: "input_data (llmCases ! 2) = ''moob''"
    by (simp_all add: llmCases_def mkCase_def)
  have fb: "\<forall>it. nth_opt ?ip 1 = Some it \<longrightarrow> \<not> success it \<or> \<not> truthy (formatted_input it)"
    by (simp add: nth_opt_def)
  have some: "nth_opt ?ip 1 \<noteq> None"
    by (simp add: nth_opt_def)
  have py: "truthy (getLanguageId ''python'')"
    by code_simp
  have s1: "stdinsOf (requests (?W 1)) = [JStr ''ba'']"
    by code_simp
  have t2: "fst (tryCaseLLM ?E cfg0 ''print(42)'' ''python'' (llmCases ! 2) (nth_opt ?ip 2)
                   (?W 2)) =
              Inl (Error ''Judge0 service is temporarily unavailable. Please try again later.'')"
    by code_simp
  from llm_fallback_original_input [OF ip i1, of cfg0 "''print(42)''" w0]
  obtain rs w' where
    run: "executeTestCasesWithLLM ?E cfg0 ''print(42)'' ''python'' llmCases [] w0 = (Inr rs, w')"
    and len: "length rs = length llmCases"
    and fall: "(\<forall>it. nth_opt ?ip 1 = Some it \<longrightarrow> \<not> success it \<or> \<not> truthy (formatted_input it)) \<longrightarrow>
        usedInput (caseResult.more (rs ! 1)) = JStr (input_data (llmCases ! 1)) \<and>
        stdinsOf (requests (?W (Suc 1))) =
          stdinsOf (requests (?W 1)) @
            (if truthy (getLanguageId ''python'') \<and> nth_opt ?ip 1 \<noteq> None
             then [JStr (input_data (llmCases ! 1))] else [])"
    by blast
  have cond: "truthy (getLanguageId ''python'') \<and> nth_opt ?ip 1 \<noteq> None"
    using py some by (rule conjI)
  have two: "Suc 1 = (2::nat)" by simp
  note both = fall [THEN mp, OF fb]
  note used = both [THEN conjunct1, unfolded c1]
  note posted = both [THEN conjunct2, unfolded two s1 c1]
  from posted cond have s2: "stdinsOf (requests (?W 2)) = [JStr ''ba'', JStr ''cd'']"
    by (simp only: simp_thms if_True append.simps)
  from run len n used
  have a: "\<exists>rs w'. executeTestCasesWithLLM ?E cfg0 ''print(42)'' ''python'' llmCases [] w0 =
                     (Inr rs, w') \<and>
            length rs = 3 \<and> usedInput (caseResult.more (rs ! 1)) = JStr ''cd''"
    by auto
  from llm_fallback_original_input [OF ip i2, of cfg0 "''print(42)''" w0] t2 c2
  have b: "\<exists>rs w'. executeTestCasesWithLLM ?E cfg0 ''print(42)'' ''python'' llmCases [] w0 =
                     (Inr rs, w') \<and>
            cr_status (rs ! 2) = ERROR \<and>
            error (rs ! 2) =
              JStr ''Judge0 service is temporarily unavailable. Please try again later.'' \<and>
            usedInput (caseResult.more (rs ! 2)) = JStr ''moob''"
    by auto
  from ip s1 s2 a b show ?thesis by blast
qed

end
